theory Spec2Isabelle
  imports Main "HOL-Library.Word" "HOL-Library.AList"
begin

section \<open>The FastPDF client: data model\<close>

text \<open>
  A Go \<^verbatim>\<open>string\<close> is a sequence of bytes, and so is a \<^verbatim>\<open>[]byte\<close>; both are
  modelled as lists of (8-bit) characters, and the conversion \<^verbatim>\<open>string(b)\<close> is the
  identity on the content.
\<close>

type_synonym bytes = string

text \<open>
  \<^verbatim>\<open>errors.go\<close>: the structured error of the client. The fields are those of the Go
  struct, in its order.
\<close>

record PDFError =
  StatusCode :: int
  Status :: string
  Response :: string
  Message :: string

text \<open>
  Values of Go's \<^verbatim>\<open>error\<close> interface that the client returns: its own
  \<^verbatim>\<open>*PDFError\<close>, an error made by \<^verbatim>\<open>fmt.Errorf\<close> (with its message), or an error
  of the operating system, the network, the zip reader or another library, which the client
  only passes on (identified by its message).
\<close>

datatype error = PDFErr PDFError | Errorf string | LibErr string

text \<open>
  An \<^verbatim>\<open>io.Reader\<close> that is read to its end: the bytes it delivers, and the error that
  ends the stream if it does not end with EOF.
\<close>

datatype reader = Reader bytes "error option"

text \<open>\<^verbatim>\<open>io.ReadAll\<close>: the data read so far, and the error (nil at EOF).\<close>

fun ioReadAll :: "reader \<Rightarrow> bytes \<times> error option" where
  "ioReadAll (Reader d e) = (d, e)"

text \<open>
  \<^verbatim>\<open>http.Header\<close> is a Go map from a header name to the list of its values: an
  association list with distinct keys. A \<^verbatim>\<open>range\<close> over the map visits the entries in
  an order Go does not fix; the model visits them in the order of the list, and the
  theorems hold for every list.
\<close>

type_synonym header = "(string \<times> string list) list"

text \<open>
  An \<^verbatim>\<open>*http.Response\<close>: the status code, the status text and the body, which the
  client reads, and the header, which \<^verbatim>\<open>net/http\<close> reads when it follows a redirect.
\<close>

record Response =
  RespStatusCode :: int
  RespStatus :: string
  RespHeader :: header
  Body :: reader

section \<open>errors.go\<close>

text \<open>
  \<^verbatim>\<open>
  func NewPDFError(resp *http.Response) error {
      bodyBytes, err := io.ReadAll(resp.Body)
      if err != nil {
          bodyBytes = []byte("failed to read response body")
      }
      return &PDFError{
          StatusCode: resp.StatusCode,
          Response:   string(bodyBytes),
          Message:    "Server returned an HTTP error",
      }
  }
  \<close>
  The composite literal names three of the four fields; Go gives the fourth, \<open>Status\<close>,
  the zero value of its type, the empty string.
\<close>

definition NewPDFError :: "Response \<Rightarrow> PDFError" where
  "NewPDFError resp =
     (case ioReadAll (Body resp) of
        (bodyBytes, err) \<Rightarrow>
          (let bodyBytes = (case err of Some _ \<Rightarrow> ''failed to read response body''
                                      | None \<Rightarrow> bodyBytes)
           in \<lparr> StatusCode = RespStatusCode resp,
                Status = [],
                Response = bodyBytes,
                Message = ''Server returned an HTTP error'' \<rparr>))"

section \<open>The surroundings of the client\<close>

text \<open>
  The client is glue over Go's standard library, the file system and the network. What
  these do is not code of the client, so the model takes it from an environment \<open>E\<close>
  (a record of functions, one for each library call whose result the client cannot
  determine) and threads a \<open>world\<close> through every operation that has an effect: the
  files and directories on disk, the log of the requests that the client handed to
  \<^verbatim>\<open>net/http\<close>, and the log of the requests that went out to the server. Every theorem
  below holds for every environment.
\<close>

text \<open>
  The body that \<^verbatim>\<open>mime/multipart\<close> encodes, as the sequence of its parts: a form file
  (field name, file name, content) or a form field (name, value).
\<close>

datatype part = FilePart string string bytes | FieldPart string string

datatype req_body = NoBody | MultipartBody string "part list"

record Request =
  Method :: string
  URL :: string
  Header :: header
  ReqBody :: req_body

text \<open>
  An entry of a zip archive, as \<^verbatim>\<open>archive/zip\<close> presents it: its name, whether
  \<^verbatim>\<open>FileInfo().IsDir()\<close> holds, its mode bits, and what \<^verbatim>\<open>Open()\<close> returns.
\<close>

record zip_file =
  Name :: string
  IsDir :: bool
  Mode :: nat
  Open :: "error + reader"

record world =
  files :: "string \<rightharpoonup> bytes"
  dirs :: "string set"
  calls :: "Request list"
  sent :: "Request list"

record env =
  readFault :: "string \<Rightarrow> error option"
  openFault :: "string \<Rightarrow> error option"
  writeFault :: "string \<Rightarrow> (nat \<times> error) option"
  mkdirFault :: "string \<Rightarrow> error option"
  urlFault :: "string \<Rightarrow> error option"
  roundTrip :: "Request list \<Rightarrow> Request \<Rightarrow> error + Response"
  redirect :: "Request list \<Rightarrow> Response \<Rightarrow> Request option"
  TypeByExtension :: "string \<Rightarrow> string"
  DetectContentType :: "bytes \<Rightarrow> string"
  filepathBase :: "string \<Rightarrow> string"
  filepathExt :: "string \<Rightarrow> string"
  filepathJoin :: "string \<Rightarrow> string \<Rightarrow> string"
  CanonicalMIMEHeaderKey :: "string \<Rightarrow> string"
  randomBoundary :: string
  zipNewReader :: "bytes \<Rightarrow> error + zip_file list"
  jsonMarshalStrings :: "(string \<times> string) list \<Rightarrow> error + string"

subsection \<open>The file system\<close>

text \<open>
  \<^verbatim>\<open>os.ReadFile\<close>: the content of the file at the path, or an error (the file is
  missing, or the environment refuses the read).
\<close>

definition osReadFile :: "env \<Rightarrow> world \<Rightarrow> string \<Rightarrow> error + bytes" where
  "osReadFile E w name =
     (case readFault E name of
        Some err \<Rightarrow> Inl err
      | None \<Rightarrow>
          (case files w name of
             None \<Rightarrow> Inl (LibErr (''open '' @ name @ '': no such file or directory''))
           | Some d \<Rightarrow> Inr d))"

text \<open>
  \<^verbatim>\<open>os.OpenFile(name, O_WRONLY|O_CREATE|O_TRUNC, perm)\<close>: fails and leaves the disk
  as it is, or creates the file, or truncates the one that is there. The permission bits
  are not modelled.
\<close>

definition osOpenFile :: "env \<Rightarrow> world \<Rightarrow> string \<Rightarrow> world \<times> error option" where
  "osOpenFile E w name =
     (case openFault E name of
        Some err \<Rightarrow> (w, Some err)
      | None \<Rightarrow> (w\<lparr>files := (files w)(name \<mapsto> [])\<rparr>, None))"

text \<open>
  Writing data to the (just truncated) open file at a path: the environment may cut the
  write after \<open>k\<close> bytes with an error; the bytes written before stay on disk.
\<close>

definition fileWrite :: "env \<Rightarrow> world \<Rightarrow> string \<Rightarrow> bytes \<Rightarrow> world \<times> error option" where
  "fileWrite E w name d =
     (case writeFault E name of
        None \<Rightarrow> (w\<lparr>files := (files w)(name \<mapsto> d)\<rparr>, None)
      | Some (k, err) \<Rightarrow>
          if length d \<le> k then (w\<lparr>files := (files w)(name \<mapsto> d)\<rparr>, None)
          else (w\<lparr>files := (files w)(name \<mapsto> take k d)\<rparr>, Some err))"

text \<open>\<^verbatim>\<open>os.WriteFile(name, data, perm)\<close>: open as above, write, close.\<close>

definition osWriteFile :: "env \<Rightarrow> world \<Rightarrow> string \<Rightarrow> bytes \<Rightarrow> world \<times> error option" where
  "osWriteFile E w name d =
     (case osOpenFile E w name of
        (w1, Some err) \<Rightarrow> (w1, Some err)
      | (w1, None) \<Rightarrow> fileWrite E w1 name d)"

text \<open>\<^verbatim>\<open>os.MkdirAll(path, perm)\<close>.\<close>

definition osMkdirAll :: "env \<Rightarrow> world \<Rightarrow> string \<Rightarrow> world \<times> error option" where
  "osMkdirAll E w path =
     (case mkdirFault E path of
        Some err \<Rightarrow> (w, Some err)
      | None \<Rightarrow> (w\<lparr>dirs := insert path (dirs w)\<rparr>, None))"

text \<open>
  \<^verbatim>\<open>io.Copy(f, rc)\<close> into the open file at a path: the data the source delivers is
  written; a write error ends the copy, and otherwise the error that ended the source (if
  any) is the result.
\<close>

fun ioCopy :: "env \<Rightarrow> world \<Rightarrow> string \<Rightarrow> reader \<Rightarrow> world \<times> error option" where
  "ioCopy E w name (Reader d rerr) =
     (case fileWrite E w name d of
        (w1, Some werr) \<Rightarrow> (w1, Some werr)
      | (w1, None) \<Rightarrow> (w1, rerr))"

subsection \<open>HTTP\<close>

text \<open>
  \<^verbatim>\<open>Header.Set\<close> and \<^verbatim>\<open>Header.Add\<close>: both canonicalise the key;
  \<open>Set\<close> replaces the values of the key by the one value, \<open>Add\<close> appends the value to those
  of the key.
\<close>

definition headerValues :: "header \<Rightarrow> string \<Rightarrow> string list" where
  "headerValues h k = (case map_of h k of None \<Rightarrow> [] | Some vs \<Rightarrow> vs)"

definition headerSet :: "env \<Rightarrow> header \<Rightarrow> string \<Rightarrow> string \<Rightarrow> header" where
  "headerSet E h key v = AList.update (CanonicalMIMEHeaderKey E key) [v] h"

definition headerAdd :: "env \<Rightarrow> header \<Rightarrow> string \<Rightarrow> string \<Rightarrow> header" where
  "headerAdd E h key v =
     AList.update (CanonicalMIMEHeaderKey E key)
       (headerValues h (CanonicalMIMEHeaderKey E key) @ [v]) h"

text \<open>
  \<^verbatim>\<open>http.NewRequest(method, url, body)\<close>: fails when the URL does not parse, and
  otherwise gives a request with an empty header map.
\<close>

definition httpNewRequest :: "env \<Rightarrow> string \<Rightarrow> string \<Rightarrow> req_body \<Rightarrow> error + Request" where
  "httpNewRequest E method url body =
     (case urlFault E url of
        Some err \<Rightarrow> Inl err
      | None \<Rightarrow> Inr \<lparr> Method = method, URL = url, Header = [], ReqBody = body \<rparr>)"

text \<open>
  \<^verbatim>\<open>client.Do(req)\<close> with the default redirect policy, which both
  \<^verbatim>\<open>http.DefaultClient\<close> and \<^verbatim>\<open>&http.Client{}\<close> have. The request goes out (the world
  logs it) and the server answers with a response or the transport fails; the answer may
  depend on the requests made before. After a response, \<^verbatim>\<open>net/http\<close> decides from the
  requests of this call and the response whether to follow a redirect
  (\<open>redirect E via resp\<close>): if not, the response is the result; if so, the follow-up request,
  which the library builds, goes out in turn. The policy stops with an error before an
  eleventh request.
\<close>

fun follow :: "env \<Rightarrow> nat \<Rightarrow> Request list \<Rightarrow> world \<Rightarrow> Request \<Rightarrow> world \<times> (error + Response)" where
  "follow E 0 via w req = (w, Inl (LibErr ''stopped after 10 redirects''))"
| "follow E (Suc n) via w req =
     (case roundTrip E (sent w) req of
        Inl err \<Rightarrow> (w\<lparr>sent := sent w @ [req]\<rparr>, Inl err)
      | Inr resp \<Rightarrow>
          (case redirect E (via @ [req]) resp of
             None \<Rightarrow> (w\<lparr>sent := sent w @ [req]\<rparr>, Inr resp)
           | Some req' \<Rightarrow> follow E n (via @ [req]) (w\<lparr>sent := sent w @ [req]\<rparr>) req'))"

definition clientDo :: "env \<Rightarrow> world \<Rightarrow> Request \<Rightarrow> world \<times> (error + Response)" where
  "clientDo E w req = follow E 10 [] (w\<lparr>calls := calls w @ [req]\<rparr>) req"

subsection \<open>The multipart writer\<close>

text \<open>
  A \<^verbatim>\<open>multipart.Writer\<close> over a \<^verbatim>\<open>bytes.Buffer\<close>: its boundary and the parts written
  so far (the last one is the part that \<^verbatim>\<open>part.Write\<close> extends). Writes to a
  \<^verbatim>\<open>bytes.Buffer\<close> return no error, so the calls always succeed; they keep the result
  type of the Go calls, and the client's error branches stay in the model.
\<close>

record mwriter =
  boundary :: string
  parts :: "part list"

definition multipartNewWriter :: "env \<Rightarrow> mwriter" where
  "multipartNewWriter E = \<lparr> boundary = randomBoundary E, parts = [] \<rparr>"

definition CreateFormFile :: "mwriter \<Rightarrow> string \<Rightarrow> string \<Rightarrow> error + mwriter" where
  "CreateFormFile wr fieldname filename =
     Inr (wr\<lparr>parts := parts wr @ [FilePart fieldname filename []]\<rparr>)"

fun extendPart :: "part \<Rightarrow> bytes \<Rightarrow> part" where
  "extendPart (FilePart n f d) d' = FilePart n f (d @ d')"
| "extendPart (FieldPart n v) d' = FieldPart n (v @ d')"

definition partWrite :: "mwriter \<Rightarrow> bytes \<Rightarrow> error + mwriter" where
  "partWrite wr d =
     (case rev (parts wr) of
        [] \<Rightarrow> Inl (LibErr ''multipart: no part to write to'')
      | p # ps \<Rightarrow> Inr (wr\<lparr>parts := rev ps @ [extendPart p d]\<rparr>))"

definition WriteField :: "mwriter \<Rightarrow> string \<Rightarrow> string \<Rightarrow> error + mwriter" where
  "WriteField wr fieldname v = Inr (wr\<lparr>parts := parts wr @ [FieldPart fieldname v]\<rparr>)"

definition writerClose :: "mwriter \<Rightarrow> error + mwriter" where
  "writerClose wr = Inr wr"

definition FormDataContentType :: "mwriter \<Rightarrow> string" where
  "FormDataContentType wr = ''multipart/form-data; boundary='' @ boundary wr"

subsection \<open>JSON\<close>

text \<open>
  A Go slice is \<^verbatim>\<open>nil\<close> or holds a list of elements; \<^verbatim>\<open>encoding/json\<close> tells the
  two apart (\<^verbatim>\<open>null\<close> against \<^verbatim>\<open>[]\<close>). Go's \<^verbatim>\<open>int\<close> is a signed machine integer
  of the platform's width: a word of any length \<open>'a\<close>, read as signed.
\<close>

datatype 'a slice = NilSlice | Slice "'a list"

definition digitChar :: "nat \<Rightarrow> char" where
  "digitChar d = char_of (48 + d)"

function showNat :: "nat \<Rightarrow> string" where
  "showNat n = (if n < 10 then [digitChar n] else showNat (n div 10) @ [digitChar (n mod 10)])"
  by pat_completeness auto
termination
  by (relation "measure (\<lambda>n. n)") auto

declare showNat.simps [simp del]

text \<open>\<^verbatim>\<open>strconv.FormatInt(i, 10)\<close>: the decimal digits, after a minus sign when negative.\<close>

definition formatInt :: "int \<Rightarrow> string" where
  "formatInt i = (if i < 0 then CHR ''-'' # showNat (nat (- i)) else showNat (nat i))"

fun marshalElems :: "('e \<Rightarrow> string) \<Rightarrow> 'e list \<Rightarrow> string" where
  "marshalElems f [] = []"
| "marshalElems f [x] = f x"
| "marshalElems f (x # y # ys) = f x @ '','' @ marshalElems f (y # ys)"

text \<open>
  What \<^verbatim>\<open>json.Marshal\<close> writes for a slice, given what it writes for an element:
  \<^verbatim>\<open>null\<close> for the nil slice, and otherwise the elements between brackets, separated by
  commas, with no white space.
\<close>

fun encodeSlice :: "('e \<Rightarrow> string) \<Rightarrow> 'e slice \<Rightarrow> string" where
  "encodeSlice f NilSlice = ''null''"
| "encodeSlice f (Slice xs) = ''['' @ marshalElems f xs @ '']''"

definition encodeInt :: "'a::len word \<Rightarrow> string" where
  "encodeInt x = formatInt (sint x)"

text \<open>
  \<^verbatim>\<open>json.Marshal\<close> on a \<^verbatim>\<open>[]int\<close> and on a \<^verbatim>\<open>[][]int\<close>. It returns no error on
  these two types; the result type of the Go call is kept.
\<close>

definition jsonMarshalInts :: "'a::len word slice \<Rightarrow> error + string" where
  "jsonMarshalInts splits = Inr (encodeSlice encodeInt splits)"

definition jsonMarshalIntss :: "'a::len word slice slice \<Rightarrow> error + string" where
  "jsonMarshalIntss splits = Inr (encodeSlice (encodeSlice encodeInt) splits)"

section \<open>api.go\<close>

record PDFClient =
  APIVersion :: string
  BaseURL :: string
  APIKey :: string
  Headers :: header
  SupportedImageFormats :: "string list"

text \<open>
  An option is a Go \<^verbatim>\<open>func(*PDFClient)\<close> that updates the client in place: a function
  from the client to the updated client. \<^verbatim>\<open>fmt.Sprintf("%s/%s", a, b)\<close> is \<open>a @ ''/'' @ b\<close>.
\<close>

definition NewPDFClient :: "string \<Rightarrow> (PDFClient \<Rightarrow> PDFClient) list \<Rightarrow> PDFClient" where
  "NewPDFClient apiKey options =
     (let client = \<lparr> APIVersion = ''v1'',
                      BaseURL = ''https://data.fastpdfservice.com'',
                      APIKey = apiKey,
                      Headers = [(''Authorization'', [apiKey])],
                      SupportedImageFormats =
                        [''jpeg'', ''png'', ''gif'', ''bmp'', ''tiff'', ''webp'', ''svg'', ''ico'',
                         ''pdf'', ''psd'', ''ai'', ''eps'', ''cr2'', ''nef'', ''sr2'', ''orf'',
                         ''rw2'', ''dng'', ''arw'', ''heic''] \<rparr>;
          client = foldl (\<lambda>c option. option c) client options
      in client\<lparr>BaseURL := BaseURL client @ ''/'' @ APIVersion client\<rparr>)"

definition SetBaseURL :: "string \<Rightarrow> PDFClient \<Rightarrow> PDFClient" where
  "SetBaseURL url = (\<lambda>c. c\<lparr>BaseURL := url\<rparr>)"

definition SetAPIVersion :: "string \<Rightarrow> PDFClient \<Rightarrow> PDFClient" where
  "SetAPIVersion version = (\<lambda>c. c\<lparr>APIVersion := version\<rparr>)"

text \<open>
  The earlier constructor of the repository (the one \<^verbatim>\<open>main.go\<close> calls), with the base
  URL and the version as arguments; it has no list of image formats.
\<close>

definition NewPDFClient3 :: "string \<Rightarrow> string \<Rightarrow> string \<Rightarrow> PDFClient" where
  "NewPDFClient3 apiKey baseURL apiVersion =
     \<lparr> APIVersion = apiVersion,
       BaseURL = baseURL @ ''/'' @ apiVersion,
       APIKey = apiKey,
       Headers = [(''Authorization'', [apiKey])],
       SupportedImageFormats = [] \<rparr>"

text \<open>
  The \<^verbatim>\<open>file interface{}\<close> argument: a \<^verbatim>\<open>string\<close> (a path), a \<^verbatim>\<open>[]byte\<close>, or a value
  of any other dynamic type, given by the text that \<^verbatim>\<open>%T\<close> prints for that type.
\<close>

datatype file_arg = FString string | FBytes bytes | FOther string

text \<open>
  \<^verbatim>\<open>readFile\<close> has four named results; a bare \<^verbatim>\<open>return\<close> returns them as they are, the
  ones not yet assigned with their zero values.
\<close>

definition readFile :: "env \<Rightarrow> world \<Rightarrow> file_arg \<Rightarrow> string \<times> bytes \<times> string \<times> error option" where
  "readFile E w file =
     (case file of
        FString f \<Rightarrow>
          (let filename = filepathBase E f in
           case osReadFile E w f of
             Inl err \<Rightarrow> (filename, [], [], Some err)
           | Inr fileContent \<Rightarrow>
               (let contentType = TypeByExtension E (filepathExt E f) in
                (filename, fileContent,
                 if contentType = [] then ''application/octet-stream'' else contentType,
                 None)))
      | FBytes f \<Rightarrow>
          (let fileContent = f; contentType = DetectContentType E f in
           ([], fileContent,
            if contentType = [] then ''application/octet-stream'' else contentType,
            None))
      | FOther t \<Rightarrow> ([], [], [], Some (Errorf (''unsupported file type: '' @ t))))"

text \<open>
  The results of the operations: the world after the call, and the Go results. A
  \<^verbatim>\<open>[]byte\<close> result is \<open>None\<close> where the code returns \<^verbatim>\<open>nil\<close> and \<open>Some b\<close> where it
  returns a slice.
\<close>

definition ValidateToken :: "env \<Rightarrow> world \<Rightarrow> PDFClient \<Rightarrow> world \<times> bool \<times> error option" where
  "ValidateToken E w client =
     (let url = BaseURL client @ ''/token'' in
      case httpNewRequest E ''GET'' url NoBody of
        Inl err \<Rightarrow> (w, False, Some err)
      | Inr req \<Rightarrow>
          (let req = req\<lparr>Header := Headers client\<rparr> in
           case clientDo E w req of
             (w1, Inl err) \<Rightarrow> (w1, False, Some err)
           | (w1, Inr response) \<Rightarrow>
               if RespStatusCode response \<noteq> 200
               then (w1, False, Some (PDFErr (NewPDFError response)))
               else (w1, True, None)))"

text \<open>The two \<^verbatim>\<open>range\<close> loops of \<^verbatim>\<open>makeMultipartPostRequest\<close>.\<close>

fun writeFields :: "mwriter \<Rightarrow> (string \<times> string) list \<Rightarrow> error + mwriter" where
  "writeFields wr [] = Inr wr"
| "writeFields wr ((key, v) # rest) =
     (case WriteField wr key v of
        Inl err \<Rightarrow> Inl err
      | Inr wr1 \<Rightarrow> writeFields wr1 rest)"

fun addValues :: "env \<Rightarrow> header \<Rightarrow> string \<Rightarrow> string list \<Rightarrow> header" where
  "addValues E h key [] = h"
| "addValues E h key (v # vs) = addValues E (headerAdd E h key v) key vs"

fun copyHeaders :: "env \<Rightarrow> header \<Rightarrow> header \<Rightarrow> header" where
  "copyHeaders E h [] = h"
| "copyHeaders E h ((key, vs) # rest) = copyHeaders E (addValues E h key vs) rest"

definition makeMultipartPostRequest ::
  "env \<Rightarrow> world \<Rightarrow> PDFClient \<Rightarrow> string \<Rightarrow> string \<Rightarrow> bytes \<Rightarrow> string \<Rightarrow> (string \<times> string) list
     \<Rightarrow> world \<times> bytes option \<times> error option" where
  "makeMultipartPostRequest E w c url fileField fileData filename extraFields =
     (let writer = multipartNewWriter E in
      case CreateFormFile writer fileField filename of
        Inl err \<Rightarrow> (w, None, Some err)
      | Inr writer \<Rightarrow>
      (case partWrite writer fileData of
        Inl err \<Rightarrow> (w, None, Some err)
      | Inr writer \<Rightarrow>
      (case writeFields writer extraFields of
        Inl err \<Rightarrow> (w, None, Some err)
      | Inr writer \<Rightarrow>
      (case writerClose writer of
        Inl err \<Rightarrow> (w, None, Some err)
      | Inr writer \<Rightarrow>
      (case httpNewRequest E ''POST'' url (MultipartBody (boundary writer) (parts writer)) of
        Inl err \<Rightarrow> (w, None, Some err)
      | Inr req \<Rightarrow>
          (let req = req\<lparr>Header :=
                       headerSet E (Header req) ''Content-Type'' (FormDataContentType writer)\<rparr>;
               req = req\<lparr>Header := copyHeaders E (Header req) (Headers c)\<rparr>
           in case clientDo E w req of
                (w1, Inl err) \<Rightarrow> (w1, None, Some err)
              | (w1, Inr resp) \<Rightarrow>
                  if RespStatusCode resp \<noteq> 200
                  then (w1, None, Some (PDFErr (NewPDFError resp)))
                  else (case ioReadAll (Body resp) of (d, err) \<Rightarrow> (w1, Some d, err))))))))"

definition Save ::
  "env \<Rightarrow> world \<Rightarrow> PDFClient \<Rightarrow> bytes \<Rightarrow> string \<Rightarrow> world \<times> bytes option \<times> error option" where
  "Save E w c content filePath =
     (if filePath \<noteq> [] then
        (case osWriteFile E w filePath content of
           (w1, Some err) \<Rightarrow> (w1, None, Some err)
         | (w1, None) \<Rightarrow> (w1, None, None))
      else (w, Some content, None))"

definition Split ::
  "env \<Rightarrow> world \<Rightarrow> PDFClient \<Rightarrow> file_arg \<Rightarrow> 'a::len word slice
     \<Rightarrow> world \<times> bytes option \<times> error option" where
  "Split E w c file splits =
     (case readFile E w file of
        (filename, fileContent, _, Some err) \<Rightarrow> (w, None, Some err)
      | (filename, fileContent, _, None) \<Rightarrow>
          (case jsonMarshalInts splits of
             Inl err \<Rightarrow> (w, None, Some err)
           | Inr splitsData \<Rightarrow>
               makeMultipartPostRequest E w c (BaseURL c @ ''/pdf/split'') ''file''
                 fileContent filename [(''splits'', splitsData)]))"

definition SplitZip ::
  "env \<Rightarrow> world \<Rightarrow> PDFClient \<Rightarrow> file_arg \<Rightarrow> 'a::len word slice slice
     \<Rightarrow> world \<times> bytes option \<times> error option" where
  "SplitZip E w c file splits =
     (case readFile E w file of
        (filename, fileContent, _, Some err) \<Rightarrow> (w, None, Some err)
      | (filename, fileContent, _, None) \<Rightarrow>
          (case jsonMarshalIntss splits of
             Inl err \<Rightarrow> (w, None, Some err)
           | Inr splitsData \<Rightarrow>
               makeMultipartPostRequest E w c (BaseURL c @ ''/pdf/split-zip'') ''file''
                 fileContent filename [(''splits'', splitsData)]))"

text \<open>
  The loop of \<^verbatim>\<open>Extract\<close> over the entries of the archive. The result of
  \<^verbatim>\<open>os.MkdirAll\<close> is not looked at: whether it fails or not, the loop goes on.
\<close>

fun extractEntries :: "env \<Rightarrow> world \<Rightarrow> string \<Rightarrow> zip_file list \<Rightarrow> world \<times> error option" where
  "extractEntries E w outputPath [] = (w, None)"
| "extractEntries E w outputPath (file # rest) =
     (let fPath = filepathJoin E outputPath (Name file) in
      if IsDir file then
        (case osMkdirAll E w fPath of (w1, _) \<Rightarrow> extractEntries E w1 outputPath rest)
      else
        (case osOpenFile E w fPath of
           (w1, Some err) \<Rightarrow> (w1, Some err)
         | (w1, None) \<Rightarrow>
             (case Open file of
                Inl err \<Rightarrow> (w1, Some err)
              | Inr rc \<Rightarrow>
                  (case ioCopy E w1 fPath rc of
                     (w2, Some err) \<Rightarrow> (w2, Some err)
                   | (w2, None) \<Rightarrow> extractEntries E w2 outputPath rest))))"

definition Extract :: "env \<Rightarrow> world \<Rightarrow> PDFClient \<Rightarrow> bytes \<Rightarrow> string \<Rightarrow> world \<times> error option" where
  "Extract E w c zipBytes outputPath =
     (case zipNewReader E zipBytes of
        Inl err \<Rightarrow> (w, Some err)
      | Inr zipFiles \<Rightarrow> extractEntries E w outputPath zipFiles)"

definition EditMetadata ::
  "env \<Rightarrow> world \<Rightarrow> PDFClient \<Rightarrow> file_arg \<Rightarrow> (string \<times> string) list
     \<Rightarrow> world \<times> bytes option \<times> error option" where
  "EditMetadata E w c file metadata =
     (case readFile E w file of
        (filename, fileContent, _, Some err) \<Rightarrow> (w, None, Some err)
      | (filename, fileContent, _, None) \<Rightarrow>
          (case jsonMarshalStrings E metadata of
             Inl err \<Rightarrow> (w, None, Some err)
           | Inr metadataJSON \<Rightarrow>
               makeMultipartPostRequest E w c (BaseURL c @ ''/pdf/metadata'') ''file''
                 fileContent filename [(''metadata'', metadataJSON)]))"

section \<open>Reading the JSON back\<close>

text \<open>
  The reader on the other side of the wire is not code of the client. For the round trip
  its part is played by a decoder of the JSON grammar for these values: an integer is an
  optional minus sign and decimal digits without a leading zero, and must fit the width
  of the integer type; an array is \<^verbatim>\<open>null\<close> (the nil slice, as \<^verbatim>\<open>json.Unmarshal\<close>
  reads it into a slice) or the elements between brackets, separated by commas. Each
  decoder returns the value and the rest of the input.
\<close>

definition isDigit :: "char \<Rightarrow> bool" where
  "isDigit c = (48 \<le> (of_char c :: nat) \<and> (of_char c :: nat) \<le> 57)"

definition digitVal :: "char \<Rightarrow> nat" where
  "digitVal c = of_char c - 48"

definition readNat :: "string \<Rightarrow> nat" where
  "readNat ds = foldl (\<lambda>a c. 10 * a + digitVal c) 0 ds"

definition parseInt :: "string \<Rightarrow> (int \<times> string) option" where
  "parseInt s =
     (let neg = (s \<noteq> [] \<and> hd s = CHR ''-'');
          t = (if neg then tl s else s);
          ds = takeWhile isDigit t;
          r = dropWhile isDigit t
      in if ds = [] \<or> (1 < length ds \<and> hd ds = CHR ''0'') then None
         else Some (if neg then - int (readNat ds) else int (readNat ds), r))"

definition decodeInt :: "string \<Rightarrow> ('a::len word \<times> string) option" where
  "decodeInt s =
     (case parseInt s of
        None \<Rightarrow> None
      | Some (i, r) \<Rightarrow>
          if - (2 ^ (LENGTH('a) - 1)) \<le> i \<and> i < 2 ^ (LENGTH('a) - 1)
          then Some (word_of_int i, r) else None)"

fun stripPrefix :: "string \<Rightarrow> string \<Rightarrow> string option" where
  "stripPrefix [] s = Some s"
| "stripPrefix (p # ps) [] = None"
| "stripPrefix (p # ps) (c # cs) = (if p = c then stripPrefix ps cs else None)"

text \<open>
  The elements of a non-empty array, with the decoder \<open>p\<close> of one element. The
  recursion is on the rest of the input after a comma, which is shorter than the input
  whenever \<open>p\<close> has read anything; the decoder refuses to go on otherwise.
\<close>

function decodeElems ::
  "(string \<Rightarrow> ('e \<times> string) option) \<Rightarrow> string \<Rightarrow> ('e list \<times> string) option" where
  "decodeElems p s =
     (case p s of
        None \<Rightarrow> None
      | Some (x, r) \<Rightarrow>
          (case r of
             [] \<Rightarrow> Some ([x], [])
           | c # r' \<Rightarrow>
               if c = CHR '','' then
                 (if length r' < length s then
                    (case decodeElems p r' of
                       None \<Rightarrow> None
                     | Some (xs, r'') \<Rightarrow> Some (x # xs, r''))
                  else None)
               else Some ([x], r)))"
  by pat_completeness auto
termination
  by (relation "measure (\<lambda>(p, s). length s)") auto

declare decodeElems.simps [simp del]

definition decodeSlice ::
  "(string \<Rightarrow> ('e \<times> string) option) \<Rightarrow> string \<Rightarrow> ('e slice \<times> string) option" where
  "decodeSlice p s =
     (case stripPrefix ''null'' s of
        Some r \<Rightarrow> Some (NilSlice, r)
      | None \<Rightarrow>
          (case stripPrefix ''[]'' s of
             Some r \<Rightarrow> Some (Slice [], r)
           | None \<Rightarrow>
               (case stripPrefix ''['' s of
                  None \<Rightarrow> None
                | Some t \<Rightarrow>
                    (case decodeElems p t of
                       None \<Rightarrow> None
                     | Some (xs, r) \<Rightarrow>
                         (case stripPrefix '']'' r of
                            None \<Rightarrow> None
                          | Some r' \<Rightarrow> Some (Slice xs, r'))))))"

text \<open>A document is read when nothing is left of the input.\<close>

definition whole :: "('v \<times> string) option \<Rightarrow> 'v option" where
  "whole res = (case res of None \<Rightarrow> None | Some (v, r) \<Rightarrow> if r = [] then Some v else None)"

definition jsonUnmarshalInts :: "string \<Rightarrow> 'a::len word slice option" where
  "jsonUnmarshalInts s = whole (decodeSlice decodeInt s)"

definition jsonUnmarshalIntss :: "string \<Rightarrow> 'a::len word slice slice option" where
  "jsonUnmarshalIntss s = whole (decodeSlice (decodeSlice decodeInt) s)"

section \<open>Notions for the statements\<close>

text \<open>
  The requests that an operation issued, that is, built and handed to \<^verbatim>\<open>client.Do\<close>:
  those in the log of calls after the operation that were not in it before. The requests
  that went out on the wire during the operation are these and the follow-up requests
  that \<^verbatim>\<open>net/http\<close> made for redirects.
\<close>

definition issued :: "world \<Rightarrow> world \<Rightarrow> Request list" where
  "issued w w' = drop (length (calls w)) (calls w')"

definition onWire :: "world \<Rightarrow> world \<Rightarrow> Request list" where
  "onWire w w' = drop (length (sent w)) (sent w')"

text \<open>The request that \<^verbatim>\<open>ValidateToken\<close> builds.\<close>

definition tokenRequest :: "PDFClient \<Rightarrow> Request" where
  "tokenRequest c =
     \<lparr> Method = ''GET'', URL = BaseURL c @ ''/token'', Header = Headers c, ReqBody = NoBody \<rparr>"

text \<open>
  The options that the package offers, by their argument: \<open>Inl url\<close> is
  \<^verbatim>\<open>SetBaseURL(url)\<close> and \<open>Inr version\<close> is \<^verbatim>\<open>SetAPIVersion(version)\<close>.
\<close>

definition setterOption :: "string + string \<Rightarrow> PDFClient \<Rightarrow> PDFClient" where
  "setterOption s = (case s of Inl url \<Rightarrow> SetBaseURL url | Inr version \<Rightarrow> SetAPIVersion version)"

text \<open>
  A concrete environment for running the model on plain inputs (file names without a
  directory and with at most one dot, header names in canonical form, text content): no
  faults, no redirects, the extension \<^verbatim>\<open>.pdf\<close> as the one known to
  \<^verbatim>\<open>mime.TypeByExtension\<close>, text as what \<^verbatim>\<open>http.DetectContentType\<close> finds, an empty
  archive, and the given server.
\<close>

definition plainEnv :: "(Request list \<Rightarrow> Request \<Rightarrow> error + Response) \<Rightarrow> env" where
  "plainEnv transport =
     \<lparr> readFault = (\<lambda>_. None),
       openFault = (\<lambda>_. None),
       writeFault = (\<lambda>_. None),
       mkdirFault = (\<lambda>_. None),
       urlFault = (\<lambda>_. None),
       roundTrip = transport,
       redirect = (\<lambda>_ _. None),
       TypeByExtension = (\<lambda>ext. if ext = ''.pdf'' then ''application/pdf'' else []),
       DetectContentType = (\<lambda>_. ''text/plain; charset=utf-8''),
       filepathBase = (\<lambda>p. p),
       filepathExt = (\<lambda>p. dropWhile (\<lambda>ch. ch \<noteq> CHR ''.'') p),
       filepathJoin = (\<lambda>d n. d @ ''/'' @ n),
       CanonicalMIMEHeaderKey = (\<lambda>k. k),
       randomBoundary = ''boundary'',
       zipNewReader = (\<lambda>_. Inr []),
       jsonMarshalStrings = (\<lambda>_. Inr ''{}'') \<rparr>"

definition emptyWorld :: world where
  "emptyWorld = \<lparr> files = Map.empty, dirs = {}, calls = [], sent = [] \<rparr>"

text \<open>A server that answers every request with the given status code and body.\<close>

definition answering :: "int \<Rightarrow> bytes \<Rightarrow> Request list \<Rightarrow> Request \<Rightarrow> error + Response" where
  "answering code body =
     (\<lambda>_ _. Inr \<lparr> RespStatusCode = code, RespStatus = [], RespHeader = [],
                   Body = Reader body None \<rparr>)"

text \<open>
  What \<^verbatim>\<open>net/http\<close> does after a 302 response whose \<^verbatim>\<open>Location\<close> is on another domain
  than the first request of the call: it follows with a GET of the location without a
  body, with the headers of the first request except \<^verbatim>\<open>Authorization\<close>,
  \<^verbatim>\<open>Www-Authenticate\<close>, \<^verbatim>\<open>Cookie\<close> and \<^verbatim>\<open>Cookie2\<close>, and with the URL of the request
  before as \<^verbatim>\<open>Referer\<close>. Any other response is returned to the caller.
\<close>

definition sensitiveHeader :: "string \<Rightarrow> bool" where
  "sensitiveHeader k =
     (k = ''Authorization'' \<or> k = ''Www-Authenticate'' \<or> k = ''Cookie'' \<or> k = ''Cookie2'')"

definition crossDomainRedirect :: "Request list \<Rightarrow> Response \<Rightarrow> Request option" where
  "crossDomainRedirect via resp =
     (if RespStatusCode resp = 302 \<and> via \<noteq> [] then
        (case map_of (RespHeader resp) ''Location'' of
           None \<Rightarrow> None
         | Some locs \<Rightarrow>
             (case locs of
                [] \<Rightarrow> None
              | loc # _ \<Rightarrow>
                  Some \<lparr> Method = ''GET'', URL = loc,
                         Header = filter (\<lambda>(k, vs). \<not> sensitiveHeader k) (Header (hd via))
                                    @ [(''Referer'', [URL (last via)])],
                         ReqBody = NoBody \<rparr>))
      else None)"

text \<open>
  A server that moves the token endpoint of the default base URL to another host, and
  answers every other request with 200.
\<close>

definition movedServer :: "Request list \<Rightarrow> Request \<Rightarrow> error + Response" where
  "movedServer = (\<lambda>_ req.
     if URL req = ''https://data.fastpdfservice.com/v1/token''
     then Inr \<lparr> RespStatusCode = 302, RespStatus = ''302 Found'',
                RespHeader = [(''Location'', [''https://other.example/token''])],
                Body = Reader [] None \<rparr>
     else Inr \<lparr> RespStatusCode = 200, RespStatus = ''200 OK'', RespHeader = [],
                Body = Reader ''ok'' None \<rparr>)"

text \<open>
  The request that \<^verbatim>\<open>makeMultipartPostRequest\<close> builds, in closed form:
  the content type of the encoder is set first, then the headers of the client are added;
  the body is the file part followed by one field for each extra field.
\<close>

definition postRequest ::
  "env \<Rightarrow> PDFClient \<Rightarrow> string \<Rightarrow> string \<Rightarrow> bytes \<Rightarrow> string \<Rightarrow> (string \<times> string) list \<Rightarrow> Request" where
  "postRequest E c url fileField fileData filename extraFields =
     \<lparr> Method = ''POST'', URL = url,
       Header = copyHeaders E
                  (headerSet E [] ''Content-Type''
                     (''multipart/form-data; boundary='' @ randomBoundary E))
                  (Headers c),
       ReqBody = MultipartBody (randomBoundary E)
                   (FilePart fileField filename fileData
                      # map (\<lambda>(k, v). FieldPart k v) extraFields) \<rparr>"

text \<open>
  What an upload returns for a response: on status 200 the result of reading the body to
  its end (all of the body and no error, when the body can be read; if reading fails, what
  was read and the read error), on any other status no content and the structured error
  made from the response.
\<close>

definition statusDecision :: "Response \<Rightarrow> bytes option \<times> error option" where
  "statusDecision resp =
     (if RespStatusCode resp = 200
      then (Some (fst (ioReadAll (Body resp))), snd (ioReadAll (Body resp)))
      else (None, Some (PDFErr (NewPDFError resp))))"

text \<open>
  A request carries the headers \<open>h\<close>: every value of every header of \<open>h\<close> is among the
  values that the request has under the canonical form of that header's name.
\<close>

definition carries :: "env \<Rightarrow> header \<Rightarrow> Request \<Rightarrow> bool" where
  "carries E h req =
     (\<forall>(k, vs) \<in> set h. set vs \<subseteq> set (headerValues (Header req) (CanonicalMIMEHeaderKey E k)))"

text \<open>
  A server that answers 200 with a body that cannot be read to its end: the connection
  breaks after the bytes \<^verbatim>\<open>par\<close>.
\<close>

definition brokenBody :: "Request list \<Rightarrow> Request \<Rightarrow> error + Response" where
  "brokenBody = (\<lambda>_ _. Inr \<lparr> RespStatusCode = 200, RespStatus = ''200 OK'', RespHeader = [],
                              Body = Reader ''par'' (Some (LibErr ''unexpected EOF'')) \<rparr>)"

section \<open>The JSON round trip\<close>

lemma isDigit_digitChar: "d < 10 \<Longrightarrow> isDigit (digitChar d)"
  by (simp add: isDigit_def digitChar_def)

lemma digitVal_digitChar: "d < 10 \<Longrightarrow> digitVal (digitChar d) = d"
  by (simp add: digitVal_def digitChar_def)

lemma of_char_digitChar: "d < 10 \<Longrightarrow> (of_char (digitChar d) :: nat) = 48 + d"
  by (simp add: digitChar_def)

lemma digitChar_not_zero: "d < 10 \<Longrightarrow> digitChar d = CHR ''0'' \<Longrightarrow> d = 0"
  by (auto dest!: arg_cong [where f = "of_char :: char \<Rightarrow> nat"] simp: of_char_digitChar)

lemma showNat_digits: "c \<in> set (showNat n) \<Longrightarrow> isDigit c"
proof (induction n arbitrary: c rule: showNat.induct)
  case (1 n)
  show ?case
  proof (cases "n < 10")
    case True
    with "1.prems" show ?thesis
      by (simp add: showNat.simps [of n] isDigit_digitChar)
  next
    case False
    with "1.prems" "1.IH" show ?thesis
      by (auto simp: showNat.simps [of n] isDigit_digitChar)
  qed
qed

lemma showNat_nonempty: "showNat n \<noteq> []"
  by (simp add: showNat.simps [of n])

lemma readNat_snoc: "readNat (ds @ [c]) = 10 * readNat ds + digitVal c"
  by (simp add: readNat_def)

lemma readNat_showNat: "readNat (showNat n) = n"
proof (induction n rule: showNat.induct)
  case (1 n)
  show ?case
  proof (cases "n < 10")
    case True
    then show ?thesis
      by (simp add: showNat.simps [of n] readNat_def digitVal_digitChar)
  next
    case False
    with "1.IH" show ?thesis
      by (simp add: showNat.simps [of n] readNat_snoc digitVal_digitChar)
  qed
qed

lemma showNat_length: "1 < length (showNat n) \<Longrightarrow> 10 \<le> n"
  by (cases "n < 10") (simp_all add: showNat.simps [of n])

lemma showNat_no_leading_zero: "0 < n \<Longrightarrow> hd (showNat n) \<noteq> CHR ''0''"
proof (induction n rule: showNat.induct)
  case (1 n)
  show ?case
  proof (cases "n < 10")
    case True
    with "1.prems" show ?thesis
      by (auto simp: showNat.simps [of n] dest: digitChar_not_zero)
  next
    case False
    with "1.IH" show ?thesis
      by (simp add: showNat.simps [of n] showNat_nonempty)
  qed
qed

lemma takeWhile_digits:
  "\<not> isDigit c \<Longrightarrow> takeWhile isDigit (showNat n @ c # r) = showNat n"
  by (simp add: takeWhile_append2 showNat_digits)

lemma dropWhile_digits:
  "\<not> isDigit c \<Longrightarrow> dropWhile isDigit (showNat n @ c # r) = c # r"
  by (simp add: dropWhile_append2 showNat_digits)

lemma showNat_not_minus: "hd (showNat n) \<noteq> CHR ''-''"
proof -
  obtain c cs where s: "showNat n = c # cs"
    using showNat_nonempty [of n] by (cases "showNat n") auto
  then have "isDigit c"
    using showNat_digits [of c n] by simp
  then have "c \<noteq> CHR ''-''"
    by (auto simp: isDigit_def)
  with s show ?thesis by simp
qed

lemma parseInt_formatInt:
  assumes "\<not> isDigit c"
  shows "parseInt (formatInt i @ c # r) = Some (i, c # r)"
proof (cases "i < 0")
  case True
  then have "0 < nat (- i)" by simp
  then have "1 < length (showNat (nat (- i))) \<longrightarrow> hd (showNat (nat (- i))) \<noteq> CHR ''0''"
    using showNat_no_leading_zero by blast
  with True assms show ?thesis
    by (simp add: parseInt_def formatInt_def takeWhile_digits dropWhile_digits
          showNat_nonempty readNat_showNat Let_def)
next
  case False
  have "1 < length (showNat (nat i)) \<longrightarrow> hd (showNat (nat i)) \<noteq> CHR ''0''"
  proof
    assume "1 < length (showNat (nat i))"
    then have "10 \<le> nat i" by (rule showNat_length)
    then have "0 < nat i" by simp
    then show "hd (showNat (nat i)) \<noteq> CHR ''0''" by (rule showNat_no_leading_zero)
  qed
  with False assms show ?thesis
    by (simp add: parseInt_def formatInt_def takeWhile_digits dropWhile_digits
          showNat_nonempty readNat_showNat showNat_not_minus Let_def)
qed

lemma decodeInt_formatInt:
  assumes "\<not> isDigit c"
  shows "decodeInt (encodeInt (x :: 'a::len word) @ c # r) = Some (x, c # r)"
  using sint_ge [of x] sint_lt [of x]
  by (simp add: decodeInt_def encodeInt_def parseInt_formatInt [OF assms])

lemma formatInt_first: "\<exists>c t. formatInt i = c # t \<and> c \<noteq> CHR '']''"
proof (cases "i < 0")
  case True
  then show ?thesis by (simp add: formatInt_def)
next
  case False
  obtain c cs where s: "showNat (nat i) = c # cs"
    using showNat_nonempty [of "nat i"] by (cases "showNat (nat i)") auto
  then have "isDigit c"
    using showNat_digits [of c "nat i"] by simp
  then have "c \<noteq> CHR '']''"
    by (auto simp: isDigit_def)
  with s False show ?thesis by (simp add: formatInt_def)
qed

lemma decodeElems_marshalElems:
  assumes elem: "\<And>x c r. c = CHR '','' \<or> c = CHR '']'' \<Longrightarrow> p (f x @ c # r) = Some (x, c # r)"
  shows "xs \<noteq> [] \<Longrightarrow>
         decodeElems p (marshalElems f xs @ CHR '']'' # r) = Some (xs, CHR '']'' # r)"
proof (induction xs rule: induct_list012)
  case 1
  then show ?case by simp
next
  case (2 x)
  show ?case
    by (subst decodeElems.simps) (simp add: elem)
next
  case (3 x y ys)
  then have IH: "decodeElems p (marshalElems f (y # ys) @ CHR '']'' # r) = Some (y # ys, CHR '']'' # r)"
    by simp
  show ?case
    by (subst decodeElems.simps) (simp add: elem IH)
qed

lemma decodeSlice_encodeSlice:
  assumes elem: "\<And>x c r. c = CHR '','' \<or> c = CHR '']'' \<Longrightarrow> p (f x @ c # r) = Some (x, c # r)"
    and first: "\<And>x. \<exists>c t. f x = c # t \<and> c \<noteq> CHR '']''"
  shows "decodeSlice p (encodeSlice f v @ r) = Some (v, r)"
proof (cases v)
  case NilSlice
  then show ?thesis by (simp add: decodeSlice_def)
next
  case (Slice xs)
  show ?thesis
  proof (cases xs)
    case Nil
    with Slice show ?thesis by (simp add: decodeSlice_def)
  next
    case (Cons y ys)
    obtain c t where fy: "f y = c # t" "c \<noteq> CHR '']''"
      using first [of y] by blast
    have m: "\<exists>t'. marshalElems f (y # ys) = c # t'"
      using fy by (cases ys) auto
    then obtain t' where t': "marshalElems f (y # ys) = c # t'" by blast
    have d: "decodeElems p (marshalElems f (y # ys) @ CHR '']'' # r) = Some (y # ys, CHR '']'' # r)"
      by (rule decodeElems_marshalElems) (auto simp: elem)
    have "decodeSlice p (CHR ''['' # marshalElems f (y # ys) @ CHR '']'' # r) = Some (Slice (y # ys), r)"
      unfolding decodeSlice_def using fy(2) d by (simp add: t')
    with Slice Cons show ?thesis by simp
  qed
qed

lemma encodeSlice_first: "\<exists>c t. encodeSlice f v = c # t \<and> c \<noteq> CHR '']''"
  by (cases v) auto

lemma decodeSlice_ints:
  "decodeSlice decodeInt (encodeSlice encodeInt v @ r)
     = Some (v :: 'a::len word slice, r)"
proof (rule decodeSlice_encodeSlice)
  fix x :: "'a word" and c r
  assume "c = CHR '','' \<or> c = CHR '']''"
  then have "\<not> isDigit c" by (auto simp: isDigit_def)
  then show "decodeInt (encodeInt x @ c # r) = Some (x, c # r)"
    by (rule decodeInt_formatInt)
next
  fix x :: "'a word"
  show "\<exists>c t. encodeInt x = c # t \<and> c \<noteq> CHR '']''"
    unfolding encodeInt_def by (rule formatInt_first)
qed

lemma roundtrip_ints:
  "jsonUnmarshalInts (encodeSlice encodeInt v) = Some (v :: 'a::len word slice)"
proof -
  have "decodeSlice decodeInt (encodeSlice encodeInt v @ []) = Some (v, [])"
    by (rule decodeSlice_ints)
  then show ?thesis by (simp add: jsonUnmarshalInts_def whole_def)
qed

lemma roundtrip_intss:
  "jsonUnmarshalIntss (encodeSlice (encodeSlice encodeInt) v)
     = Some (v :: 'a::len word slice slice)"
proof -
  have "decodeSlice (decodeSlice decodeInt)
          (encodeSlice (encodeSlice encodeInt) v @ []) = Some (v, [])"
  proof (rule decodeSlice_encodeSlice)
    fix x :: "'a word slice" and c r
    show "decodeSlice decodeInt (encodeSlice encodeInt x @ c # r) = Some (x, c # r)"
      by (rule decodeSlice_ints)
  next
    fix x :: "'a word slice"
    show "\<exists>c t. encodeSlice encodeInt x = c # t \<and> c \<noteq> CHR '']''"
      by (rule encodeSlice_first)
  qed
  then show ?thesis by (simp add: jsonUnmarshalIntss_def whole_def)
qed

section \<open>Requests and responses\<close>

subsection \<open>The HTTP client\<close>

lemma follow_keeps:
  "files (fst (follow E n via w req)) = files w
   \<and> dirs (fst (follow E n via w req)) = dirs w
   \<and> calls (fst (follow E n via w req)) = calls w"
  by (induction n arbitrary: via w req) (auto split: sum.splits option.splits)

lemma follow_sent:
  "\<exists>rest. sent (fst (follow E (Suc n) via w req)) = sent w @ req # rest"
proof (induction n arbitrary: via w req)
  case 0
  show ?case by (auto split: sum.splits option.splits)
next
  case (Suc n)
  show ?case
  proof (cases "roundTrip E (sent w) req")
    case (Inl err)
    then show ?thesis by simp
  next
    case (Inr resp)
    show ?thesis
    proof (cases "redirect E (via @ [req]) resp")
      case None
      with Inr show ?thesis by simp
    next
      case (Some req')
      obtain rest where
        "sent (fst (follow E (Suc n) (via @ [req]) (w\<lparr>sent := sent w @ [req]\<rparr>) req'))
           = sent (w\<lparr>sent := sent w @ [req]\<rparr>) @ req' # rest"
        using Suc.IH by blast
      with Inr Some show ?thesis by simp
    qed
  qed
qed

lemma follow_no_redirect:
  assumes "\<And>via resp. redirect E via resp = None"
  shows "sent (fst (follow E (Suc n) via w req)) = sent w @ [req]"
  using assms by (auto split: sum.splits)

lemma clientDo_calls: "calls (fst (clientDo E w req)) = calls w @ [req]"
  using follow_keeps [of E 10 "[]" "w\<lparr>calls := calls w @ [req]\<rparr>" req]
  by (simp add: clientDo_def)

lemma clientDo_disk:
  "files (fst (clientDo E w req)) = files w \<and> dirs (fst (clientDo E w req)) = dirs w"
  using follow_keeps [of E 10 "[]" "w\<lparr>calls := calls w @ [req]\<rparr>" req]
  by (simp add: clientDo_def)

lemma clientDo_issued: "issued w (fst (clientDo E w req)) = [req]"
  by (simp add: issued_def clientDo_calls)

lemma clientDo_onWire: "take 1 (onWire w (fst (clientDo E w req))) = [req]"
proof -
  obtain rest where
    "sent (fst (follow E (Suc 9) [] (w\<lparr>calls := calls w @ [req]\<rparr>) req))
       = sent (w\<lparr>calls := calls w @ [req]\<rparr>) @ req # rest"
    using follow_sent by blast
  then show ?thesis by (simp add: clientDo_def onWire_def eval_nat_numeral)
qed

lemma clientDo_onWire_no_redirect:
  assumes "\<And>via resp. redirect E via resp = None"
  shows "onWire w (fst (clientDo E w req)) = [req]"
  using follow_no_redirect [OF assms, of 9 "[]" "w\<lparr>calls := calls w @ [req]\<rparr>" req]
  by (simp add: clientDo_def onWire_def eval_nat_numeral)

lemma issued_same [simp]: "issued w w = []"
  by (simp add: issued_def)

lemma onWire_same [simp]: "onWire w w = []"
  by (simp add: onWire_def)

subsection \<open>The operations in closed form\<close>

lemma writeFields_parts:
  "writeFields wr ef = Inr (wr\<lparr>parts := parts wr @ map (\<lambda>(k, v). FieldPart k v) ef\<rparr>)"
  by (induction wr ef rule: writeFields.induct) (auto simp: WriteField_def)

lemma mmpr_unfold:
  "makeMultipartPostRequest E w c url ff fd fn ef =
     (case urlFault E url of
        Some err \<Rightarrow> (w, None, Some err)
      | None \<Rightarrow>
          (case clientDo E w (postRequest E c url ff fd fn ef) of
             (w1, Inl err) \<Rightarrow> (w1, None, Some err)
           | (w1, Inr resp) \<Rightarrow> (w1, statusDecision resp)))"
  by (auto simp: makeMultipartPostRequest_def multipartNewWriter_def CreateFormFile_def
        partWrite_def writeFields_parts writerClose_def httpNewRequest_def
        FormDataContentType_def postRequest_def statusDecision_def Let_def
      split: option.splits sum.splits prod.splits)

lemma ValidateToken_unfold:
  "ValidateToken E w c =
     (case urlFault E (BaseURL c @ ''/token'') of
        Some err \<Rightarrow> (w, False, Some err)
      | None \<Rightarrow>
          (case clientDo E w (tokenRequest c) of
             (w1, Inl err) \<Rightarrow> (w1, False, Some err)
           | (w1, Inr resp) \<Rightarrow>
               (w1, if RespStatusCode resp = 200 then (True, None)
                    else (False, Some (PDFErr (NewPDFError resp))))))"
  by (auto simp: ValidateToken_def httpNewRequest_def tokenRequest_def Let_def
      split: option.splits sum.splits prod.splits)

lemma Split_cases:
  "Split E w c file splits =
     (case readFile E w file of
        (filename, fileContent, ct, Some err) \<Rightarrow> (w, None, Some err)
      | (filename, fileContent, ct, None) \<Rightarrow>
          makeMultipartPostRequest E w c (BaseURL c @ ''/pdf/split'') ''file''
            fileContent filename [(''splits'', encodeSlice encodeInt splits)])"
  by (simp add: Split_def jsonMarshalInts_def split: prod.splits option.splits)

lemma SplitZip_cases:
  "SplitZip E w c file splits =
     (case readFile E w file of
        (filename, fileContent, ct, Some err) \<Rightarrow> (w, None, Some err)
      | (filename, fileContent, ct, None) \<Rightarrow>
          makeMultipartPostRequest E w c (BaseURL c @ ''/pdf/split-zip'') ''file''
            fileContent filename [(''splits'', encodeSlice (encodeSlice encodeInt) splits)])"
  by (simp add: SplitZip_def jsonMarshalIntss_def split: prod.splits option.splits)

text \<open>What the operations issue and what goes out.\<close>

lemma mmpr_issued_eq:
  "issued w (fst (makeMultipartPostRequest E w c url ff fd fn ef)) =
     (case urlFault E url of Some err \<Rightarrow> [] | None \<Rightarrow> [postRequest E c url ff fd fn ef])"
  using clientDo_issued [of w E "postRequest E c url ff fd fn ef"]
  by (auto simp: mmpr_unfold split: option.splits sum.splits prod.splits)

lemma mmpr_issued:
  "req \<in> set (issued w (fst (makeMultipartPostRequest E w c url ff fd fn ef)))
     \<Longrightarrow> req = postRequest E c url ff fd fn ef"
  by (auto simp: mmpr_issued_eq split: option.splits)

lemma mmpr_wire:
  "take 1 (onWire w (fst (makeMultipartPostRequest E w c url ff fd fn ef)))
     = issued w (fst (makeMultipartPostRequest E w c url ff fd fn ef))"
  using clientDo_issued [of w E "postRequest E c url ff fd fn ef"]
        clientDo_onWire [of w E "postRequest E c url ff fd fn ef"]
  by (auto simp: mmpr_unfold split: option.splits sum.splits prod.splits)

lemma mmpr_wire_no_redirect:
  assumes "\<And>via resp. redirect E via resp = None"
  shows "onWire w (fst (makeMultipartPostRequest E w c url ff fd fn ef))
     = issued w (fst (makeMultipartPostRequest E w c url ff fd fn ef))"
  using clientDo_issued [of w E "postRequest E c url ff fd fn ef"]
        clientDo_onWire_no_redirect [OF assms, of w "postRequest E c url ff fd fn ef"]
  by (auto simp: mmpr_unfold split: option.splits sum.splits prod.splits)

lemma ValidateToken_issued_eq:
  "issued w (fst (ValidateToken E w c)) =
     (case urlFault E (BaseURL c @ ''/token'') of Some err \<Rightarrow> [] | None \<Rightarrow> [tokenRequest c])"
  using clientDo_issued [of w E "tokenRequest c"]
  by (auto simp: ValidateToken_unfold split: option.splits sum.splits prod.splits)

lemma ValidateToken_wire:
  "take 1 (onWire w (fst (ValidateToken E w c))) = issued w (fst (ValidateToken E w c))"
  using clientDo_issued [of w E "tokenRequest c"] clientDo_onWire [of w E "tokenRequest c"]
  by (auto simp: ValidateToken_unfold split: option.splits sum.splits prod.splits)

lemma ValidateToken_wire_no_redirect:
  assumes "\<And>via resp. redirect E via resp = None"
  shows "onWire w (fst (ValidateToken E w c)) = issued w (fst (ValidateToken E w c))"
  using clientDo_issued [of w E "tokenRequest c"]
        clientDo_onWire_no_redirect [OF assms, of w "tokenRequest c"]
  by (auto simp: ValidateToken_unfold split: option.splits sum.splits prod.splits)

lemma Split_wire:
  "take 1 (onWire w (fst (Split E w c file splits))) = issued w (fst (Split E w c file splits))"
  using mmpr_wire by (auto simp: Split_cases split: prod.splits option.splits)

lemma SplitZip_wire:
  "take 1 (onWire w (fst (SplitZip E w c file splits)))
     = issued w (fst (SplitZip E w c file splits))"
  using mmpr_wire by (auto simp: SplitZip_cases split: prod.splits option.splits)

lemma EditMetadata_wire:
  "take 1 (onWire w (fst (EditMetadata E w c file metadata)))
     = issued w (fst (EditMetadata E w c file metadata))"
  using mmpr_wire by (auto simp: EditMetadata_def split: prod.splits option.splits sum.splits)

lemma Split_wire_no_redirect:
  assumes "\<And>via resp. redirect E via resp = None"
  shows "onWire w (fst (Split E w c file splits)) = issued w (fst (Split E w c file splits))"
  using mmpr_wire_no_redirect [OF assms]
  by (auto simp: Split_cases split: prod.splits option.splits)

lemma SplitZip_wire_no_redirect:
  assumes "\<And>via resp. redirect E via resp = None"
  shows "onWire w (fst (SplitZip E w c file splits))
     = issued w (fst (SplitZip E w c file splits))"
  using mmpr_wire_no_redirect [OF assms]
  by (auto simp: SplitZip_cases split: prod.splits option.splits)

lemma EditMetadata_wire_no_redirect:
  assumes "\<And>via resp. redirect E via resp = None"
  shows "onWire w (fst (EditMetadata E w c file metadata))
     = issued w (fst (EditMetadata E w c file metadata))"
  using mmpr_wire_no_redirect [OF assms]
  by (auto simp: EditMetadata_def split: prod.splits option.splits sum.splits)

lemma NewPDFError_code: "StatusCode (NewPDFError resp) = RespStatusCode resp"
  by (cases "Body resp") (auto simp: NewPDFError_def split: option.splits)

subsection \<open>Runs in the plain environment\<close>

lemma plainEnv_simps [simp]:
  "readFault (plainEnv t) = (\<lambda>_. None)"
  "urlFault (plainEnv t) = (\<lambda>_. None)"
  "roundTrip (plainEnv t) = t"
  "redirect (plainEnv t) = (\<lambda>_ _. None)"
  "TypeByExtension (plainEnv t) = (\<lambda>ext. if ext = ''.pdf'' then ''application/pdf'' else [])"
  "DetectContentType (plainEnv t) = (\<lambda>_. ''text/plain; charset=utf-8'')"
  "filepathBase (plainEnv t) = (\<lambda>p. p)"
  "filepathExt (plainEnv t) = (\<lambda>p. dropWhile (\<lambda>ch. ch \<noteq> CHR ''.'') p)"
  "CanonicalMIMEHeaderKey (plainEnv t) = (\<lambda>k. k)"
  "randomBoundary (plainEnv t) = ''boundary''"
  "jsonMarshalStrings (plainEnv t) = (\<lambda>_. Inr ''{}'')"
  by (simp_all add: plainEnv_def)

lemma clientDo_one_answer:
  assumes "redirect E [req] resp = None" and "roundTrip E (sent w) req = Inr resp"
  shows "clientDo E w req = (w\<lparr>calls := calls w @ [req], sent := sent w @ [req]\<rparr>, Inr resp)"
  using assms by (simp add: clientDo_def eval_nat_numeral)

lemma readFile_bytes_plain:
  "readFile (plainEnv t) w (FBytes d) = ([], d, ''text/plain; charset=utf-8'', None)"
  by (simp add: readFile_def)

lemma clientDo_plain:
  "t (sent w) req = Inr resp \<Longrightarrow>
   clientDo (plainEnv t) w req = (w\<lparr>calls := calls w @ [req], sent := sent w @ [req]\<rparr>, Inr resp)"
  by (simp add: clientDo_one_answer)

subsection \<open>Headers\<close>

lemma headerValues_update:
  "headerValues (AList.update k v h) k' = (if k' = k then v else headerValues h k')"
  by (simp add: headerValues_def update_conv')

lemma headerValues_headerAdd:
  "headerValues (headerAdd E h key v) k' =
     (if k' = CanonicalMIMEHeaderKey E key then headerValues h k' @ [v] else headerValues h k')"
  by (simp add: headerAdd_def headerValues_update)

lemma headerValues_addValues:
  "headerValues (addValues E h key vs) k' =
     (if k' = CanonicalMIMEHeaderKey E key then headerValues h k' @ vs else headerValues h k')"
  by (induction vs arbitrary: h) (auto simp: headerValues_headerAdd)

lemma headerValues_copyHeaders:
  "headerValues (copyHeaders E h hs) k' =
     headerValues h k' @ concat (map snd (filter (\<lambda>(k, vs). CanonicalMIMEHeaderKey E k = k') hs))"
  by (induction hs arbitrary: h) (auto simp: headerValues_addValues)

lemma copyHeaders_carries:
  assumes "(k, vs) \<in> set hs"
  shows "set vs \<subseteq> set (headerValues (copyHeaders E h hs) (CanonicalMIMEHeaderKey E k))"
  using assms by (force simp: headerValues_copyHeaders)

lemma postRequest_carries: "carries E (Headers c) (postRequest E c url ff fd fn ef)"
  using copyHeaders_carries by (fastforce simp: carries_def postRequest_def)

lemma mmpr_carries:
  "req \<in> set (issued w (fst (makeMultipartPostRequest E w c url ff fd fn ef)))
     \<Longrightarrow> carries E (Headers c) req"
  using mmpr_issued postRequest_carries by blast

lemma Split_carries:
  "req \<in> set (issued w (fst (Split E w c file splits))) \<Longrightarrow> carries E (Headers c) req"
  using mmpr_carries by (auto simp: Split_cases split: prod.splits option.splits)

lemma SplitZip_carries:
  "req \<in> set (issued w (fst (SplitZip E w c file splits))) \<Longrightarrow> carries E (Headers c) req"
  using mmpr_carries by (auto simp: SplitZip_cases split: prod.splits option.splits)

lemma EditMetadata_carries:
  "req \<in> set (issued w (fst (EditMetadata E w c file metadata))) \<Longrightarrow> carries E (Headers c) req"
  using mmpr_carries
  by (auto simp: EditMetadata_def split: prod.splits option.splits sum.splits)

lemma ValidateToken_header:
  "req \<in> set (issued w (fst (ValidateToken E w c))) \<Longrightarrow> Header req = Headers c"
  by (auto simp: ValidateToken_issued_eq tokenRequest_def split: option.splits)

subsection \<open>Clients made by the constructors\<close>

lemma foldl_setters_keep:
  "Headers (foldl (\<lambda>c option. option c) c0 (map setterOption specs)) = Headers c0
   \<and> APIKey (foldl (\<lambda>c option. option c) c0 (map setterOption specs)) = APIKey c0"
  by (induction specs arbitrary: c0)
     (auto simp: setterOption_def SetBaseURL_def SetAPIVersion_def split: sum.splits)

lemma NewPDFClient_setters_auth:
  "Headers (NewPDFClient key (map setterOption specs)) = [(''Authorization'', [key])]
   \<and> APIKey (NewPDFClient key (map setterOption specs)) = key"
  using foldl_setters_keep
  by (simp add: NewPDFClient_def Let_def)

lemma carries_auth:
  assumes "carries E [(''Authorization'', [key])] req"
  shows "key \<in> set (headerValues (Header req) (CanonicalMIMEHeaderKey E ''Authorization''))"
  using assms by (simp add: carries_def)

lemma Split_issued_eq:
  "issued w (fst (Split E w c input splits)) =
     (case readFile E w input of
        (fn, d, ct, Some err) \<Rightarrow> []
      | (fn, d, ct, None) \<Rightarrow>
          (case urlFault E (BaseURL c @ ''/pdf/split'') of
             Some err \<Rightarrow> []
           | None \<Rightarrow> [postRequest E c (BaseURL c @ ''/pdf/split'') ''file'' d fn
                          [(''splits'', encodeSlice encodeInt splits)]]))"
  by (auto simp: Split_cases mmpr_issued_eq split: prod.splits option.splits)

lemma SplitZip_issued_eq:
  "issued w (fst (SplitZip E w c input splitss)) =
     (case readFile E w input of
        (fn, d, ct, Some err) \<Rightarrow> []
      | (fn, d, ct, None) \<Rightarrow>
          (case urlFault E (BaseURL c @ ''/pdf/split-zip'') of
             Some err \<Rightarrow> []
           | None \<Rightarrow> [postRequest E c (BaseURL c @ ''/pdf/split-zip'') ''file'' d fn
                          [(''splits'', encodeSlice (encodeSlice encodeInt) splitss)]]))"
  by (auto simp: SplitZip_cases mmpr_issued_eq split: prod.splits option.splits)

lemma EditMetadata_issued_eq:
  "issued w (fst (EditMetadata E w c input metadata)) =
     (case readFile E w input of
        (fn, d, ct, Some err) \<Rightarrow> []
      | (fn, d, ct, None) \<Rightarrow>
          (case jsonMarshalStrings E metadata of
             Inl err \<Rightarrow> []
           | Inr js \<Rightarrow>
               (case urlFault E (BaseURL c @ ''/pdf/metadata'') of
                  Some err \<Rightarrow> []
                | None \<Rightarrow> [postRequest E c (BaseURL c @ ''/pdf/metadata'') ''file'' d fn
                               [(''metadata'', js)]])))"
  by (auto simp: EditMetadata_def mmpr_issued_eq split: prod.splits option.splits sum.splits)

section \<open>The headers of the requests\<close>

text \<open>
  C3, as far as it holds. Every request that an operation builds and hands to the HTTP
  client carries the headers of the client: the GET of token validation has the client's
  header map itself, and the POST of every upload has every value of every client header
  under the canonical form of its name. For a client made by a constructor of the package
  (with any list of the package's options), these requests carry the API key as a value of
  the Authorization header. An operation hands at most one request to the HTTP client (the
  token request, or the POST in closed form), that request is the first one that goes out
  during the operation, and when the HTTP client follows no redirect it is the only one.
  The requests that follow a redirect are built by \<^verbatim>\<open>net/http\<close>, not by the client, and
  nothing is stated about their headers.
\<close>

theorem auth_header_on_issued_requests:
  "(\<forall>req \<in> set (issued w (fst (ValidateToken E w c))). Header req = Headers c)
   \<and> (\<forall>req \<in> set (issued w (fst (makeMultipartPostRequest E w c url ff fd fn ef))).
         carries E (Headers c) req)
   \<and> (\<forall>req \<in> set (issued w (fst (Split E w c input splits))). carries E (Headers c) req)
   \<and> (\<forall>req \<in> set (issued w (fst (SplitZip E w c input splitss))). carries E (Headers c) req)
   \<and> (\<forall>req \<in> set (issued w (fst (EditMetadata E w c input metadata))).
         carries E (Headers c) req)
   \<and> (c = NewPDFClient key (map setterOption specs) \<or> c = NewPDFClient3 key base ver \<longrightarrow>
        APIKey c = key
        \<and> (\<forall>req \<in> set (issued w (fst (ValidateToken E w c))).
              headerValues (Header req) ''Authorization'' = [key])
        \<and> (\<forall>req \<in> set (issued w (fst (Split E w c input splits))
                         @ issued w (fst (SplitZip E w c input splitss))
                         @ issued w (fst (EditMetadata E w c input metadata))).
              key \<in> set (headerValues (Header req) (CanonicalMIMEHeaderKey E ''Authorization''))))
   \<and> issued w (fst (ValidateToken E w c)) =
        (case urlFault E (BaseURL c @ ''/token'') of Some err \<Rightarrow> [] | None \<Rightarrow> [tokenRequest c])
   \<and> issued w (fst (makeMultipartPostRequest E w c url ff fd fn ef)) =
        (case urlFault E url of Some err \<Rightarrow> [] | None \<Rightarrow> [postRequest E c url ff fd fn ef])
   \<and> take 1 (onWire w (fst (ValidateToken E w c))) = issued w (fst (ValidateToken E w c))
   \<and> take 1 (onWire w (fst (Split E w c input splits))) = issued w (fst (Split E w c input splits))
   \<and> take 1 (onWire w (fst (SplitZip E w c input splitss)))
        = issued w (fst (SplitZip E w c input splitss))
   \<and> take 1 (onWire w (fst (EditMetadata E w c input metadata)))
        = issued w (fst (EditMetadata E w c input metadata))
   \<and> ((\<forall>via resp. redirect E via resp = None) \<longrightarrow>
        onWire w (fst (ValidateToken E w c)) = issued w (fst (ValidateToken E w c))
        \<and> onWire w (fst (Split E w c input splits)) = issued w (fst (Split E w c input splits))
        \<and> onWire w (fst (SplitZip E w c input splitss))
             = issued w (fst (SplitZip E w c input splitss))
        \<and> onWire w (fst (EditMetadata E w c input metadata))
             = issued w (fst (EditMetadata E w c input metadata)))"
proof -
  have auth: "APIKey c = key
        \<and> (\<forall>req \<in> set (issued w (fst (ValidateToken E w c))).
              headerValues (Header req) ''Authorization'' = [key])
        \<and> (\<forall>req \<in> set (issued w (fst (Split E w c input splits))
                         @ issued w (fst (SplitZip E w c input splitss))
                         @ issued w (fst (EditMetadata E w c input metadata))).
              key \<in> set (headerValues (Header req) (CanonicalMIMEHeaderKey E ''Authorization'')))"
    if h: "Headers c = [(''Authorization'', [key])]" and k: "APIKey c = key"
  proof -
    have "headerValues (Header req) ''Authorization'' = [key]"
      if "req \<in> set (issued w (fst (ValidateToken E w c)))" for req
      using ValidateToken_header [OF that] h by (simp add: headerValues_def)
    moreover have "key \<in> set (headerValues (Header req) (CanonicalMIMEHeaderKey E ''Authorization''))"
      if "req \<in> set (issued w (fst (Split E w c input splits))
                       @ issued w (fst (SplitZip E w c input splitss))
                       @ issued w (fst (EditMetadata E w c input metadata)))" for req
    proof -
      have "carries E (Headers c) req"
        using that Split_carries SplitZip_carries EditMetadata_carries by auto
      then show ?thesis using h carries_auth by simp
    qed
    ultimately show ?thesis using k by blast
  qed
  have "Headers (NewPDFClient3 key base ver) = [(''Authorization'', [key])]"
       "APIKey (NewPDFClient3 key base ver) = key"
    by (simp_all add: NewPDFClient3_def)
  with auth NewPDFClient_setters_auth
  have c6: "c = NewPDFClient key (map setterOption specs) \<or> c = NewPDFClient3 key base ver \<longrightarrow>
        APIKey c = key
        \<and> (\<forall>req \<in> set (issued w (fst (ValidateToken E w c))).
              headerValues (Header req) ''Authorization'' = [key])
        \<and> (\<forall>req \<in> set (issued w (fst (Split E w c input splits))
                         @ issued w (fst (SplitZip E w c input splitss))
                         @ issued w (fst (EditMetadata E w c input metadata))).
              key \<in> set (headerValues (Header req) (CanonicalMIMEHeaderKey E ''Authorization'')))"
    by blast
  have c1: "\<forall>req \<in> set (issued w (fst (ValidateToken E w c))). Header req = Headers c"
    using ValidateToken_header by blast
  have c2: "\<forall>req \<in> set (issued w (fst (makeMultipartPostRequest E w c url ff fd fn ef))).
              carries E (Headers c) req"
    using mmpr_carries by blast
  have c3: "\<forall>req \<in> set (issued w (fst (Split E w c input splits))). carries E (Headers c) req"
    using Split_carries by blast
  have c4: "\<forall>req \<in> set (issued w (fst (SplitZip E w c input splitss))). carries E (Headers c) req"
    using SplitZip_carries by blast
  have c5: "\<forall>req \<in> set (issued w (fst (EditMetadata E w c input metadata))).
              carries E (Headers c) req"
    using EditMetadata_carries by blast
  have c7: "(\<forall>via resp. redirect E via resp = None) \<longrightarrow>
        onWire w (fst (ValidateToken E w c)) = issued w (fst (ValidateToken E w c))
        \<and> onWire w (fst (Split E w c input splits)) = issued w (fst (Split E w c input splits))
        \<and> onWire w (fst (SplitZip E w c input splitss))
             = issued w (fst (SplitZip E w c input splitss))
        \<and> onWire w (fst (EditMetadata E w c input metadata))
             = issued w (fst (EditMetadata E w c input metadata))"
    by (simp add: ValidateToken_wire_no_redirect Split_wire_no_redirect
          SplitZip_wire_no_redirect EditMetadata_wire_no_redirect)
  show ?thesis
    by (intro conjI c1 c2 c3 c4 c5 c6 c7 ValidateToken_issued_eq mmpr_issued_eq
          ValidateToken_wire Split_wire SplitZip_wire EditMetadata_wire)
qed

text \<open>
  An upload by a client made with the key \<^verbatim>\<open>key\<close>, where the server answers 200: one
  request is issued, the key is a value of its Authorization header, and it is the one
  request that goes out.
\<close>

theorem auth_header_on_issued_requests_witness:
  "issued emptyWorld
     (fst (Split (plainEnv (answering 200 ''ok'')) emptyWorld (NewPDFClient ''key'' [])
        (FBytes ''%PDF'') (NilSlice :: 64 word slice)))
     = [postRequest (plainEnv (answering 200 ''ok'')) (NewPDFClient ''key'' [])
          (BaseURL (NewPDFClient ''key'' []) @ ''/pdf/split'') ''file'' ''%PDF'' []
          [(''splits'', ''null'')]]
   \<and> ''key'' \<in> set (headerValues
        (Header (postRequest (plainEnv (answering 200 ''ok'')) (NewPDFClient ''key'' [])
          (BaseURL (NewPDFClient ''key'' []) @ ''/pdf/split'') ''file'' ''%PDF'' []
          [(''splits'', ''null'')])) ''Authorization'')
   \<and> onWire emptyWorld
     (fst (Split (plainEnv (answering 200 ''ok'')) emptyWorld (NewPDFClient ''key'' [])
        (FBytes ''%PDF'') (NilSlice :: 64 word slice)))
     = [postRequest (plainEnv (answering 200 ''ok'')) (NewPDFClient ''key'' [])
          (BaseURL (NewPDFClient ''key'' []) @ ''/pdf/split'') ''file'' ''%PDF'' []
          [(''splits'', ''null'')]]"
proof -
  have i: "issued emptyWorld
     (fst (Split (plainEnv (answering 200 ''ok'')) emptyWorld (NewPDFClient ''key'' [])
        (FBytes ''%PDF'') (NilSlice :: 64 word slice)))
     = [postRequest (plainEnv (answering 200 ''ok'')) (NewPDFClient ''key'' [])
          (BaseURL (NewPDFClient ''key'' []) @ ''/pdf/split'') ''file'' ''%PDF'' []
          [(''splits'', ''null'')]]"
    by (simp add: Split_issued_eq readFile_bytes_plain)
  note t = auth_header_on_issued_requests
      [where E = "plainEnv (answering 200 ''ok'')" and w = emptyWorld
         and c = "NewPDFClient ''key'' (map setterOption [])" and key = "''key''"
         and specs = "[]" and input = "FBytes ''%PDF''" and splits = "NilSlice :: 64 word slice"
         and splitss = "NilSlice :: 64 word slice slice" and metadata = "[]"
         and url = "[]" and ff = "[]" and fd = "[]" and fn = "[]" and ef = "[]"
         and base = "[]" and ver = "[]"]
  have "\<forall>req \<in> set (issued emptyWorld
          (fst (Split (plainEnv (answering 200 ''ok'')) emptyWorld (NewPDFClient ''key'' [])
             (FBytes ''%PDF'') (NilSlice :: 64 word slice)))).
          ''key'' \<in> set (headerValues (Header req)
             (CanonicalMIMEHeaderKey (plainEnv (answering 200 ''ok'')) ''Authorization''))"
    using t by auto
  moreover have "onWire emptyWorld
     (fst (Split (plainEnv (answering 200 ''ok'')) emptyWorld (NewPDFClient ''key'' [])
        (FBytes ''%PDF'') (NilSlice :: 64 word slice)))
     = issued emptyWorld
     (fst (Split (plainEnv (answering 200 ''ok'')) emptyWorld (NewPDFClient ''key'' [])
        (FBytes ''%PDF'') (NilSlice :: 64 word slice)))"
    using t by simp
  ultimately show ?thesis using i by simp
qed

text \<open>
  C3 as stated, for every outgoing request, does not hold. The token endpoint answers 302
  with a location on another host: the HTTP client follows, and the second request that
  goes out during \<^verbatim>\<open>ValidateToken\<close> has no Authorization header.
\<close>

theorem auth_header_dropped_after_redirect:
  "onWire emptyWorld
     (fst (ValidateToken ((plainEnv movedServer)\<lparr>redirect := crossDomainRedirect\<rparr>)
        emptyWorld (NewPDFClient ''key'' [])))
     = [tokenRequest (NewPDFClient ''key'' []),
        \<lparr> Method = ''GET'', URL = ''https://other.example/token'',
          Header = [(''Referer'', [''https://data.fastpdfservice.com/v1/token''])],
          ReqBody = NoBody \<rparr>]
   \<and> \<not> (\<forall>req \<in> set (onWire emptyWorld
            (fst (ValidateToken ((plainEnv movedServer)\<lparr>redirect := crossDomainRedirect\<rparr>)
               emptyWorld (NewPDFClient ''key'' [])))).
          ''key'' \<in> set (headerValues (Header req) ''Authorization''))"
  by (simp add: ValidateToken_unfold clientDo_def eval_nat_numeral tokenRequest_def
        NewPDFClient_def plainEnv_def movedServer_def crossDomainRedirect_def
        sensitiveHeader_def emptyWorld_def onWire_def headerValues_def)

section \<open>The status of the response\<close>

lemma statusDecision_cases:
  "(RespStatusCode resp = 200 \<and> Body resp = Reader d None \<longrightarrow>
      statusDecision resp = (Some d, None))
   \<and> (RespStatusCode resp = 200 \<and> Body resp = Reader d (Some e) \<longrightarrow>
      statusDecision resp = (Some d, Some e))
   \<and> (RespStatusCode resp \<noteq> 200 \<longrightarrow>
      statusDecision resp = (None, Some (PDFErr (NewPDFError resp))))"
  by (simp add: statusDecision_def)

lemma ValidateToken_answer:
  assumes "urlFault E (BaseURL c @ ''/token'') = None"
    and "clientDo E w (tokenRequest c) = (w1, Inr resp)"
  shows "ValidateToken E w c =
           (w1, if RespStatusCode resp = 200 then (True, None)
                else (False, Some (PDFErr (NewPDFError resp))))"
  using assms by (simp add: ValidateToken_unfold)

lemma mmpr_answer:
  assumes "urlFault E url = None"
    and "clientDo E w (postRequest E c url ff fd fn ef) = (w1, Inr resp)"
  shows "makeMultipartPostRequest E w c url ff fd fn ef = (w1, statusDecision resp)"
  using assms by (simp add: mmpr_unfold)

lemma Split_answer:
  assumes "readFile E w input = (fn, d, ct, None)"
    and "urlFault E (BaseURL c @ ''/pdf/split'') = None"
    and "clientDo E w (postRequest E c (BaseURL c @ ''/pdf/split'') ''file'' d fn
           [(''splits'', encodeSlice encodeInt splits)]) = (w1, Inr resp)"
  shows "Split E w c input splits = (w1, statusDecision resp)"
  using assms by (simp add: Split_cases mmpr_unfold)

lemma SplitZip_answer:
  assumes "readFile E w input = (fn, d, ct, None)"
    and "urlFault E (BaseURL c @ ''/pdf/split-zip'') = None"
    and "clientDo E w (postRequest E c (BaseURL c @ ''/pdf/split-zip'') ''file'' d fn
           [(''splits'', encodeSlice (encodeSlice encodeInt) splitss)]) = (w1, Inr resp)"
  shows "SplitZip E w c input splitss = (w1, statusDecision resp)"
  using assms by (simp add: SplitZip_cases mmpr_unfold)

lemma EditMetadata_answer:
  assumes "readFile E w input = (fn, d, ct, None)"
    and "jsonMarshalStrings E metadata = Inr js"
    and "urlFault E (BaseURL c @ ''/pdf/metadata'') = None"
    and "clientDo E w (postRequest E c (BaseURL c @ ''/pdf/metadata'') ''file'' d fn
           [(''metadata'', js)]) = (w1, Inr resp)"
  shows "EditMetadata E w c input metadata = (w1, statusDecision resp)"
  using assms by (simp add: EditMetadata_def mmpr_unfold)

lemma ValidateToken_success:
  assumes "fst (snd (ValidateToken E w c)) \<or> snd (snd (ValidateToken E w c)) = None"
  shows "\<exists>w1 resp. clientDo E w (tokenRequest c) = (w1, Inr resp) \<and> RespStatusCode resp = 200
           \<and> ValidateToken E w c = (w1, True, None)"
  using assms
  by (auto simp: ValidateToken_unfold split: option.splits sum.splits prod.splits if_splits)

lemma mmpr_success:
  assumes "snd (snd (makeMultipartPostRequest E w c url ff fd fn ef)) = None"
  shows "\<exists>w1 resp. clientDo E w (postRequest E c url ff fd fn ef) = (w1, Inr resp)
           \<and> RespStatusCode resp = 200
           \<and> makeMultipartPostRequest E w c url ff fd fn ef
               = (w1, Some (fst (ioReadAll (Body resp))), None)"
  using assms
  by (auto simp: mmpr_unfold statusDecision_def
      split: option.splits sum.splits prod.splits if_splits)

lemma Split_success:
  assumes "snd (snd (Split E w c input splits)) = None"
  shows "\<exists>req w1 resp. clientDo E w req = (w1, Inr resp) \<and> RespStatusCode resp = 200
           \<and> Split E w c input splits = (w1, Some (fst (ioReadAll (Body resp))), None)"
proof -
  obtain fn d ct err where r: "readFile E w input = (fn, d, ct, err)"
    by (cases "readFile E w input") auto
  show ?thesis
  proof (cases err)
    case None
    with r assms mmpr_success [of E w c "BaseURL c @ ''/pdf/split''" "''file''" d fn
        "[(''splits'', encodeSlice encodeInt splits)]"]
    show ?thesis by (auto simp: Split_cases)
  next
    case (Some e)
    with r assms show ?thesis by (simp add: Split_cases)
  qed
qed

lemma SplitZip_success:
  assumes "snd (snd (SplitZip E w c input splitss)) = None"
  shows "\<exists>req w1 resp. clientDo E w req = (w1, Inr resp) \<and> RespStatusCode resp = 200
           \<and> SplitZip E w c input splitss = (w1, Some (fst (ioReadAll (Body resp))), None)"
proof -
  obtain fn d ct err where r: "readFile E w input = (fn, d, ct, err)"
    by (cases "readFile E w input") auto
  show ?thesis
  proof (cases err)
    case None
    with r assms mmpr_success [of E w c "BaseURL c @ ''/pdf/split-zip''" "''file''" d fn
        "[(''splits'', encodeSlice (encodeSlice encodeInt) splitss)]"]
    show ?thesis by (auto simp: SplitZip_cases)
  next
    case (Some e)
    with r assms show ?thesis by (simp add: SplitZip_cases)
  qed
qed

lemma EditMetadata_success:
  assumes "snd (snd (EditMetadata E w c input metadata)) = None"
  shows "\<exists>req w1 resp. clientDo E w req = (w1, Inr resp) \<and> RespStatusCode resp = 200
           \<and> EditMetadata E w c input metadata
               = (w1, Some (fst (ioReadAll (Body resp))), None)"
proof -
  obtain fn d ct err where r: "readFile E w input = (fn, d, ct, err)"
    by (cases "readFile E w input") auto
  show ?thesis
  proof (cases err)
    case None
    show ?thesis
    proof (cases "jsonMarshalStrings E metadata")
      case (Inl e)
      with r None assms show ?thesis by (simp add: EditMetadata_def)
    next
      case (Inr js)
      with r None assms mmpr_success [of E w c "BaseURL c @ ''/pdf/metadata''" "''file''" d fn
          "[(''metadata'', js)]"]
      show ?thesis by (auto simp: EditMetadata_def)
    qed
  next
    case (Some e)
    with r assms show ?thesis by (simp add: EditMetadata_def)
  qed
qed

text \<open>
  C1, as far as it holds. Let the HTTP client return a response for the request of the
  operation (after the redirects it followed, if any). Token validation returns (true, no
  error) if the status of that response is 200 and (false, the structured error made from
  the response) otherwise. An upload (Split, SplitZip, EditMetadata, each through
  \<^verbatim>\<open>makeMultipartPostRequest\<close>) whose file was read and whose URL parses returns what
  \<open>statusDecision\<close> says: on status 200 the whole body and no error when the body can be
  read to its end, and the bytes read so far together with the read error when it cannot;
  on any other status, the other 2xx codes included, no content and the structured error
  made from the response. The structured error carries the status code of the response.
  In the other direction, an operation that returns no error (for token validation: that
  returns true or no error) got a response with status 200 from the HTTP client, and an
  upload then returns all that could be read of its body.
\<close>

theorem status_200_only_success:
  "(urlFault E (BaseURL c @ ''/token'') = None
      \<and> clientDo E w (tokenRequest c) = (w1, Inr resp) \<longrightarrow>
      ValidateToken E w c =
        (w1, if RespStatusCode resp = 200 then (True, None)
             else (False, Some (PDFErr (NewPDFError resp)))))
   \<and> (urlFault E url = None
      \<and> clientDo E w (postRequest E c url ff fd fn ef) = (w1, Inr resp) \<longrightarrow>
      makeMultipartPostRequest E w c url ff fd fn ef = (w1, statusDecision resp))
   \<and> (readFile E w input = (fn, d, ct, None)
      \<and> urlFault E (BaseURL c @ ''/pdf/split'') = None
      \<and> clientDo E w (postRequest E c (BaseURL c @ ''/pdf/split'') ''file'' d fn
            [(''splits'', encodeSlice encodeInt splits)]) = (w1, Inr resp) \<longrightarrow>
      Split E w c input splits = (w1, statusDecision resp))
   \<and> (readFile E w input = (fn, d, ct, None)
      \<and> urlFault E (BaseURL c @ ''/pdf/split-zip'') = None
      \<and> clientDo E w (postRequest E c (BaseURL c @ ''/pdf/split-zip'') ''file'' d fn
            [(''splits'', encodeSlice (encodeSlice encodeInt) splitss)]) = (w1, Inr resp) \<longrightarrow>
      SplitZip E w c input splitss = (w1, statusDecision resp))
   \<and> (readFile E w input = (fn, d, ct, None)
      \<and> jsonMarshalStrings E metadata = Inr js
      \<and> urlFault E (BaseURL c @ ''/pdf/metadata'') = None
      \<and> clientDo E w (postRequest E c (BaseURL c @ ''/pdf/metadata'') ''file'' d fn
            [(''metadata'', js)]) = (w1, Inr resp) \<longrightarrow>
      EditMetadata E w c input metadata = (w1, statusDecision resp))
   \<and> (RespStatusCode resp = 200 \<and> Body resp = Reader body None \<longrightarrow>
        statusDecision resp = (Some body, None))
   \<and> (RespStatusCode resp = 200 \<and> Body resp = Reader body (Some e) \<longrightarrow>
        statusDecision resp = (Some body, Some e))
   \<and> (RespStatusCode resp \<noteq> 200 \<longrightarrow>
        statusDecision resp = (None, Some (PDFErr (NewPDFError resp))))
   \<and> StatusCode (NewPDFError resp) = RespStatusCode resp
   \<and> (fst (snd (ValidateToken E w c)) \<or> snd (snd (ValidateToken E w c)) = None \<longrightarrow>
        (\<exists>w1 resp. clientDo E w (tokenRequest c) = (w1, Inr resp) \<and> RespStatusCode resp = 200
           \<and> ValidateToken E w c = (w1, True, None)))
   \<and> (snd (snd (Split E w c input splits)) = None \<longrightarrow>
        (\<exists>req w1 resp. clientDo E w req = (w1, Inr resp) \<and> RespStatusCode resp = 200
           \<and> Split E w c input splits = (w1, Some (fst (ioReadAll (Body resp))), None)))
   \<and> (snd (snd (SplitZip E w c input splitss)) = None \<longrightarrow>
        (\<exists>req w1 resp. clientDo E w req = (w1, Inr resp) \<and> RespStatusCode resp = 200
           \<and> SplitZip E w c input splitss = (w1, Some (fst (ioReadAll (Body resp))), None)))
   \<and> (snd (snd (EditMetadata E w c input metadata)) = None \<longrightarrow>
        (\<exists>req w1 resp. clientDo E w req = (w1, Inr resp) \<and> RespStatusCode resp = 200
           \<and> EditMetadata E w c input metadata
               = (w1, Some (fst (ioReadAll (Body resp))), None)))"
proof (intro conjI impI)
  show "RespStatusCode resp = 200 \<and> Body resp = Reader body None \<Longrightarrow>
        statusDecision resp = (Some body, None)"
    by (simp add: statusDecision_def)
  show "RespStatusCode resp = 200 \<and> Body resp = Reader body (Some e) \<Longrightarrow>
        statusDecision resp = (Some body, Some e)"
    by (simp add: statusDecision_def)
  show "RespStatusCode resp \<noteq> 200 \<Longrightarrow>
        statusDecision resp = (None, Some (PDFErr (NewPDFError resp)))"
    by (simp add: statusDecision_def)
  show "StatusCode (NewPDFError resp) = RespStatusCode resp"
    by (rule NewPDFError_code)
  show "urlFault E (BaseURL c @ ''/token'') = None
      \<and> clientDo E w (tokenRequest c) = (w1, Inr resp) \<Longrightarrow>
      ValidateToken E w c =
        (w1, if RespStatusCode resp = 200 then (True, None)
             else (False, Some (PDFErr (NewPDFError resp))))"
    using ValidateToken_answer by blast
  show "urlFault E url = None
      \<and> clientDo E w (postRequest E c url ff fd fn ef) = (w1, Inr resp) \<Longrightarrow>
      makeMultipartPostRequest E w c url ff fd fn ef = (w1, statusDecision resp)"
    using mmpr_answer by blast
  show "readFile E w input = (fn, d, ct, None)
      \<and> urlFault E (BaseURL c @ ''/pdf/split'') = None
      \<and> clientDo E w (postRequest E c (BaseURL c @ ''/pdf/split'') ''file'' d fn
            [(''splits'', encodeSlice encodeInt splits)]) = (w1, Inr resp) \<Longrightarrow>
      Split E w c input splits = (w1, statusDecision resp)"
    using Split_answer by blast
  show "readFile E w input = (fn, d, ct, None)
      \<and> urlFault E (BaseURL c @ ''/pdf/split-zip'') = None
      \<and> clientDo E w (postRequest E c (BaseURL c @ ''/pdf/split-zip'') ''file'' d fn
            [(''splits'', encodeSlice (encodeSlice encodeInt) splitss)]) = (w1, Inr resp) \<Longrightarrow>
      SplitZip E w c input splitss = (w1, statusDecision resp)"
    using SplitZip_answer by blast
  show "readFile E w input = (fn, d, ct, None)
      \<and> jsonMarshalStrings E metadata = Inr js
      \<and> urlFault E (BaseURL c @ ''/pdf/metadata'') = None
      \<and> clientDo E w (postRequest E c (BaseURL c @ ''/pdf/metadata'') ''file'' d fn
            [(''metadata'', js)]) = (w1, Inr resp) \<Longrightarrow>
      EditMetadata E w c input metadata = (w1, statusDecision resp)"
    using EditMetadata_answer by blast
  show "fst (snd (ValidateToken E w c)) \<or> snd (snd (ValidateToken E w c)) = None \<Longrightarrow>
        \<exists>w1 resp. clientDo E w (tokenRequest c) = (w1, Inr resp) \<and> RespStatusCode resp = 200
           \<and> ValidateToken E w c = (w1, True, None)"
    by (rule ValidateToken_success)
  show "snd (snd (Split E w c input splits)) = None \<Longrightarrow>
        \<exists>req w1 resp. clientDo E w req = (w1, Inr resp) \<and> RespStatusCode resp = 200
           \<and> Split E w c input splits = (w1, Some (fst (ioReadAll (Body resp))), None)"
    by (rule Split_success)
  show "snd (snd (SplitZip E w c input splitss)) = None \<Longrightarrow>
        \<exists>req w1 resp. clientDo E w req = (w1, Inr resp) \<and> RespStatusCode resp = 200
           \<and> SplitZip E w c input splitss = (w1, Some (fst (ioReadAll (Body resp))), None)"
    by (rule SplitZip_success)
  show "snd (snd (EditMetadata E w c input metadata)) = None \<Longrightarrow>
        \<exists>req w1 resp. clientDo E w req = (w1, Inr resp) \<and> RespStatusCode resp = 200
           \<and> EditMetadata E w c input metadata
               = (w1, Some (fst (ioReadAll (Body resp))), None)"
    by (rule EditMetadata_success)
qed

text \<open>
  A server that answers 201: the upload gets that response, and returns the structured
  error with code 201 and the body of the response.
\<close>

theorem status_200_only_success_witness:
  "readFile (plainEnv (answering 201 ''created'')) emptyWorld (FBytes ''%PDF'')
     = ([], ''%PDF'', ''text/plain; charset=utf-8'', None)
   \<and> urlFault (plainEnv (answering 201 ''created''))
        (BaseURL (NewPDFClient ''key'' []) @ ''/pdf/split'') = None
   \<and> clientDo (plainEnv (answering 201 ''created'')) emptyWorld
        (postRequest (plainEnv (answering 201 ''created'')) (NewPDFClient ''key'' [])
           (BaseURL (NewPDFClient ''key'' []) @ ''/pdf/split'') ''file'' ''%PDF'' []
           [(''splits'', encodeSlice encodeInt (NilSlice :: 64 word slice))])
     = (emptyWorld
          \<lparr>calls := [postRequest (plainEnv (answering 201 ''created'')) (NewPDFClient ''key'' [])
             (BaseURL (NewPDFClient ''key'' []) @ ''/pdf/split'') ''file'' ''%PDF'' []
             [(''splits'', ''null'')]],
           sent := [postRequest (plainEnv (answering 201 ''created'')) (NewPDFClient ''key'' [])
             (BaseURL (NewPDFClient ''key'' []) @ ''/pdf/split'') ''file'' ''%PDF'' []
             [(''splits'', ''null'')]]\<rparr>,
        Inr \<lparr> RespStatusCode = 201, RespStatus = [], RespHeader = [],
              Body = Reader ''created'' None \<rparr>)
   \<and> Split (plainEnv (answering 201 ''created'')) emptyWorld (NewPDFClient ''key'' [])
        (FBytes ''%PDF'') (NilSlice :: 64 word slice)
     = (emptyWorld
          \<lparr>calls := [postRequest (plainEnv (answering 201 ''created'')) (NewPDFClient ''key'' [])
             (BaseURL (NewPDFClient ''key'' []) @ ''/pdf/split'') ''file'' ''%PDF'' []
             [(''splits'', ''null'')]],
           sent := [postRequest (plainEnv (answering 201 ''created'')) (NewPDFClient ''key'' [])
             (BaseURL (NewPDFClient ''key'' []) @ ''/pdf/split'') ''file'' ''%PDF'' []
             [(''splits'', ''null'')]]\<rparr>,
        None,
        Some (PDFErr \<lparr> StatusCode = 201, Status = [], Response = ''created'',
                        Message = ''Server returned an HTTP error'' \<rparr>))"
proof -
  let ?E = "plainEnv (answering 201 ''created'')"
  let ?c = "NewPDFClient ''key'' []"
  let ?req = "postRequest ?E ?c (BaseURL ?c @ ''/pdf/split'') ''file'' ''%PDF'' []
                [(''splits'', ''null'')]"
  let ?resp = "\<lparr> RespStatusCode = 201, RespStatus = [], RespHeader = [],
                  Body = Reader ''created'' None \<rparr>"
  let ?w1 = "emptyWorld\<lparr>calls := [?req], sent := [?req]\<rparr>"
  have r: "readFile ?E emptyWorld (FBytes ''%PDF'')
             = ([], ''%PDF'', ''text/plain; charset=utf-8'', None)"
    by (rule readFile_bytes_plain)
  have u: "urlFault ?E (BaseURL ?c @ ''/pdf/split'') = None"
    by simp
  have d: "clientDo ?E emptyWorld
             (postRequest ?E ?c (BaseURL ?c @ ''/pdf/split'') ''file'' ''%PDF'' []
                [(''splits'', encodeSlice encodeInt (NilSlice :: 64 word slice))])
           = (?w1, Inr ?resp)"
    by (simp add: clientDo_plain answering_def emptyWorld_def)
  from status_200_only_success [THEN conjunct2, THEN conjunct2, THEN conjunct1, rule_format,
      OF conjI [OF r conjI [OF u d]]]
  have "Split ?E emptyWorld ?c (FBytes ''%PDF'') (NilSlice :: 64 word slice)
          = (?w1, statusDecision ?resp)" .
  then have "Split ?E emptyWorld ?c (FBytes ''%PDF'') (NilSlice :: 64 word slice)
          = (?w1, None, Some (PDFErr \<lparr> StatusCode = 201, Status = [], Response = ''created'',
                        Message = ''Server returned an HTTP error'' \<rparr>))"
    by (simp add: statusDecision_def NewPDFError_def)
  with r u d show ?thesis by simp
qed

text \<open>
  C1 as stated, the full body on every 200, does not hold. The server answers 200 and the
  body breaks off after three bytes: Split returns those three bytes and the read error.
\<close>

theorem status_200_body_read_failure:
  "snd (clientDo (plainEnv brokenBody) emptyWorld
          (postRequest (plainEnv brokenBody) (NewPDFClient ''key'' [])
             (BaseURL (NewPDFClient ''key'' []) @ ''/pdf/split'') ''file'' ''%PDF'' []
             [(''splits'', ''null'')]))
     = Inr \<lparr> RespStatusCode = 200, RespStatus = ''200 OK'', RespHeader = [],
             Body = Reader ''par'' (Some (LibErr ''unexpected EOF'')) \<rparr>
   \<and> snd (Split (plainEnv brokenBody) emptyWorld (NewPDFClient ''key'' [])
        (FBytes ''%PDF'') (NilSlice :: 64 word slice))
     = (Some ''par'', Some (LibErr ''unexpected EOF''))"
  by (simp add: Split_cases readFile_bytes_plain mmpr_unfold clientDo_plain brokenBody_def
        statusDecision_def)

section \<open>The constructor\<close>

text \<open>
  C2. A client constructed with an API key, a base URL and a version (the two options in
  either order, or the three arguments of the earlier constructor) has the base URL
  \<open>base @ ''/'' @ ver\<close>, the version appended once after the options have run, and a
  header map with the one entry Authorization, whose one value is the API key. The header
  map is the same for every list of the package's options, and without options the base
  URL is the default one followed by \<^verbatim>\<open>/v1\<close>.
\<close>

theorem NewPDFClient_base_and_headers:
  "BaseURL (NewPDFClient key [SetBaseURL base, SetAPIVersion ver]) = base @ ''/'' @ ver
   \<and> Headers (NewPDFClient key [SetBaseURL base, SetAPIVersion ver]) = [(''Authorization'', [key])]
   \<and> BaseURL (NewPDFClient key [SetAPIVersion ver, SetBaseURL base]) = base @ ''/'' @ ver
   \<and> Headers (NewPDFClient key [SetAPIVersion ver, SetBaseURL base]) = [(''Authorization'', [key])]
   \<and> BaseURL (NewPDFClient3 key base ver) = base @ ''/'' @ ver
   \<and> Headers (NewPDFClient3 key base ver) = [(''Authorization'', [key])]
   \<and> Headers (NewPDFClient key (map setterOption specs)) = [(''Authorization'', [key])]
   \<and> BaseURL (NewPDFClient key []) = ''https://data.fastpdfservice.com/v1''"
  using NewPDFClient_setters_auth [of key specs]
  by (simp add: NewPDFClient_def NewPDFClient3_def SetBaseURL_def SetAPIVersion_def)

section \<open>The splits field\<close>

text \<open>
  C7. Every request that Split issues has a multipart body of exactly two parts, the file
  part named \<^verbatim>\<open>file\<close> and one field named \<^verbatim>\<open>splits\<close>, and the value of the field reads
  back as the list of breakpoints that was given; the same holds for SplitZip and its list
  of pairs (of lists of any length). The text that \<^verbatim>\<open>json.Marshal\<close> writes reads back
  as the value, for every list, the nil slice included. When the file can be read and the
  URL parses, the operation issues exactly one request.
\<close>

theorem splits_field_round_trip:
  "(\<forall>req \<in> set (issued w (fst (Split E w c input splits))).
      \<exists>fn d js. ReqBody req = MultipartBody (randomBoundary E)
                   [FilePart ''file'' fn d, FieldPart ''splits'' js]
        \<and> jsonUnmarshalInts js = Some splits)
   \<and> (\<forall>req \<in> set (issued w (fst (SplitZip E w c input splitss))).
      \<exists>fn d js. ReqBody req = MultipartBody (randomBoundary E)
                   [FilePart ''file'' fn d, FieldPart ''splits'' js]
        \<and> jsonUnmarshalIntss js = Some splitss)
   \<and> (\<exists>js. jsonMarshalInts splits = Inr js \<and> jsonUnmarshalInts js = Some splits)
   \<and> (\<exists>js. jsonMarshalIntss splitss = Inr js \<and> jsonUnmarshalIntss js = Some splitss)
   \<and> (snd (snd (snd (readFile E w input))) = None \<and> urlFault E (BaseURL c @ ''/pdf/split'') = None
        \<longrightarrow> length (issued w (fst (Split E w c input splits))) = 1)
   \<and> (snd (snd (snd (readFile E w input))) = None \<and> urlFault E (BaseURL c @ ''/pdf/split-zip'') = None
        \<longrightarrow> length (issued w (fst (SplitZip E w c input splitss))) = 1)"
proof (intro conjI)
  show "\<forall>req \<in> set (issued w (fst (Split E w c input splits))).
      \<exists>fn d js. ReqBody req = MultipartBody (randomBoundary E)
                   [FilePart ''file'' fn d, FieldPart ''splits'' js]
        \<and> jsonUnmarshalInts js = Some splits"
    using roundtrip_ints [of splits]
    by (auto simp: Split_issued_eq postRequest_def split: prod.splits option.splits)
  show "\<forall>req \<in> set (issued w (fst (SplitZip E w c input splitss))).
      \<exists>fn d js. ReqBody req = MultipartBody (randomBoundary E)
                   [FilePart ''file'' fn d, FieldPart ''splits'' js]
        \<and> jsonUnmarshalIntss js = Some splitss"
    using roundtrip_intss [of splitss]
    by (auto simp: SplitZip_issued_eq postRequest_def split: prod.splits option.splits)
  show "\<exists>js. jsonMarshalInts splits = Inr js \<and> jsonUnmarshalInts js = Some splits"
    by (simp add: jsonMarshalInts_def roundtrip_ints)
  show "\<exists>js. jsonMarshalIntss splitss = Inr js \<and> jsonUnmarshalIntss js = Some splitss"
    by (simp add: jsonMarshalIntss_def roundtrip_intss)
  show "snd (snd (snd (readFile E w input))) = None \<and> urlFault E (BaseURL c @ ''/pdf/split'') = None
        \<longrightarrow> length (issued w (fst (Split E w c input splits))) = 1"
    by (auto simp: Split_issued_eq split: prod.splits option.splits)
  show "snd (snd (snd (readFile E w input))) = None \<and> urlFault E (BaseURL c @ ''/pdf/split-zip'') = None
        \<longrightarrow> length (issued w (fst (SplitZip E w c input splitss))) = 1"
    by (auto simp: SplitZip_issued_eq split: prod.splits option.splits)
qed

text \<open>The breakpoints \<^verbatim>\<open>[3, 7]\<close> of the repository's test.\<close>

theorem splits_field_round_trip_witness:
  "issued emptyWorld
     (fst (Split (plainEnv (answering 200 ''ok'')) emptyWorld (NewPDFClient ''key'' [])
        (FBytes ''%PDF'') (Slice [3, 7 :: 64 word])))
     = [postRequest (plainEnv (answering 200 ''ok'')) (NewPDFClient ''key'' [])
          (BaseURL (NewPDFClient ''key'' []) @ ''/pdf/split'') ''file'' ''%PDF'' []
          [(''splits'', ''[3,7]'')]]
   \<and> ReqBody (postRequest (plainEnv (answering 200 ''ok'')) (NewPDFClient ''key'' [])
          (BaseURL (NewPDFClient ''key'' []) @ ''/pdf/split'') ''file'' ''%PDF'' []
          [(''splits'', ''[3,7]'')])
       = MultipartBody ''boundary'' [FilePart ''file'' [] ''%PDF'', FieldPart ''splits'' ''[3,7]'']
   \<and> jsonUnmarshalInts ''[3,7]'' = Some (Slice [3, 7 :: 64 word])"
proof -
  have e: "encodeSlice encodeInt (Slice [3, 7 :: 64 word]) = ''[3,7]''"
    by code_simp
  have i: "issued emptyWorld
     (fst (Split (plainEnv (answering 200 ''ok'')) emptyWorld (NewPDFClient ''key'' [])
        (FBytes ''%PDF'') (Slice [3, 7 :: 64 word])))
     = [postRequest (plainEnv (answering 200 ''ok'')) (NewPDFClient ''key'' [])
          (BaseURL (NewPDFClient ''key'' []) @ ''/pdf/split'') ''file'' ''%PDF'' []
          [(''splits'', ''[3,7]'')]]"
    by (simp only: Split_issued_eq e) (simp add: readFile_bytes_plain)
  have "\<forall>req \<in> set (issued emptyWorld
     (fst (Split (plainEnv (answering 200 ''ok'')) emptyWorld (NewPDFClient ''key'' [])
        (FBytes ''%PDF'') (Slice [3, 7 :: 64 word])))).
      \<exists>fn d js. ReqBody req = MultipartBody (randomBoundary (plainEnv (answering 200 ''ok'')))
                   [FilePart ''file'' fn d, FieldPart ''splits'' js]
        \<and> jsonUnmarshalInts js = Some (Slice [3, 7 :: 64 word])"
    using splits_field_round_trip
      [where E = "plainEnv (answering 200 ''ok'')" and w = emptyWorld
         and c = "NewPDFClient ''key'' []" and input = "FBytes ''%PDF''"
         and splits = "Slice [3, 7 :: 64 word]" and splitss = "NilSlice :: 64 word slice slice"]
    by blast
  with i show ?thesis by (simp add: postRequest_def)
qed

section \<open>The file reader\<close>

text \<open>
  C10. A file that can be read gets the type that \<^verbatim>\<open>mime.TypeByExtension\<close> gives for
  its extension, and \<^verbatim>\<open>application/octet-stream\<close> when that is empty; raw bytes get the
  type that \<^verbatim>\<open>http.DetectContentType\<close> finds, and \<^verbatim>\<open>application/octet-stream\<close> when
  that is empty. So whenever the file reader returns no error, the content type it returns
  is not the empty string.
\<close>

theorem readFile_content_type:
  "(osReadFile E w f = Inr d \<longrightarrow>
      readFile E w (FString f) =
        (filepathBase E f, d,
         if TypeByExtension E (filepathExt E f) = [] then ''application/octet-stream''
         else TypeByExtension E (filepathExt E f),
         None))
   \<and> readFile E w (FBytes d) =
        ([], d,
         if DetectContentType E d = [] then ''application/octet-stream''
         else DetectContentType E d,
         None)
   \<and> (readFile E w input = (filename, fileContent, contentType, None) \<longrightarrow> contentType \<noteq> [])"
  by (auto simp: readFile_def Let_def split: file_arg.splits sum.splits if_splits)

text \<open>
  A file whose extension is not known gets the default content type; a file with the
  extension \<^verbatim>\<open>.pdf\<close> gets the type of the extension, and raw bytes get the type that was
  detected.
\<close>

theorem readFile_content_type_witness:
  "osReadFile (plainEnv (answering 200 ''ok'')) (emptyWorld\<lparr>files := [''scan.xyz'' \<mapsto> ''data'']\<rparr>)
      ''scan.xyz'' = Inr ''data''
   \<and> TypeByExtension (plainEnv (answering 200 ''ok''))
        (filepathExt (plainEnv (answering 200 ''ok'')) ''scan.xyz'') = []
   \<and> readFile (plainEnv (answering 200 ''ok'')) (emptyWorld\<lparr>files := [''scan.xyz'' \<mapsto> ''data'']\<rparr>)
        (FString ''scan.xyz'')
      = (''scan.xyz'', ''data'', ''application/octet-stream'', None)
   \<and> readFile (plainEnv (answering 200 ''ok'')) (emptyWorld\<lparr>files := [''scan.pdf'' \<mapsto> ''data'']\<rparr>)
        (FString ''scan.pdf'')
      = (''scan.pdf'', ''data'', ''application/pdf'', None)
   \<and> readFile (plainEnv (answering 200 ''ok'')) emptyWorld (FBytes ''%PDF'')
      = ([], ''%PDF'', ''text/plain; charset=utf-8'', None)"
proof -
  let ?E = "plainEnv (answering 200 ''ok'')"
  have o: "osReadFile ?E (emptyWorld\<lparr>files := [''scan.xyz'' \<mapsto> ''data'']\<rparr>) ''scan.xyz''
             = Inr ''data''"
    by (simp add: osReadFile_def)
  have o': "osReadFile ?E (emptyWorld\<lparr>files := [''scan.pdf'' \<mapsto> ''data'']\<rparr>) ''scan.pdf''
             = Inr ''data''"
    by (simp add: osReadFile_def)
  have t: "TypeByExtension ?E (filepathExt ?E ''scan.xyz'') = []"
    by simp
  from readFile_content_type [THEN conjunct1, rule_format, OF o]
       readFile_content_type [THEN conjunct1, rule_format, OF o']
       readFile_content_type [THEN conjunct2, THEN conjunct1, of ?E emptyWorld "''%PDF''"]
       o t
  show ?thesis by simp
qed

text \<open>
  C9. For an input that is neither a string nor a byte slice, the file reader fails with
  the error \<^verbatim>\<open>unsupported file type: \<close> followed by the name of the type, and Split,
  SplitZip and EditMetadata return that error, leave the world as it is, issue no request,
  and nothing goes out.
\<close>

theorem unsupported_file_type:
  "readFile E w (FOther t) = ([], [], [], Some (Errorf (''unsupported file type: '' @ t)))
   \<and> Split E w c (FOther t) splits = (w, None, Some (Errorf (''unsupported file type: '' @ t)))
   \<and> SplitZip E w c (FOther t) splitss = (w, None, Some (Errorf (''unsupported file type: '' @ t)))
   \<and> EditMetadata E w c (FOther t) metadata = (w, None, Some (Errorf (''unsupported file type: '' @ t)))
   \<and> issued w (fst (Split E w c (FOther t) splits)) = []
   \<and> issued w (fst (SplitZip E w c (FOther t) splitss)) = []
   \<and> issued w (fst (EditMetadata E w c (FOther t) metadata)) = []
   \<and> onWire w (fst (Split E w c (FOther t) splits)) = []
   \<and> onWire w (fst (SplitZip E w c (FOther t) splitss)) = []
   \<and> onWire w (fst (EditMetadata E w c (FOther t) metadata)) = []"
  by (simp add: readFile_def Split_def SplitZip_def EditMetadata_def)

section \<open>Save\<close>

text \<open>
  C8. With a non-empty path, Save writes the file: when the write succeeds it returns no
  content and no error, the file at the path holds exactly the content, and nothing else
  in the world changes; when the write fails it returns no content and the error of the
  write, as it is. With the empty path it returns the content and leaves the world as it
  is.
\<close>

theorem Save_contract:
  "(filePath \<noteq> [] \<and> osWriteFile E w filePath content = (w1, None) \<longrightarrow>
      Save E w c content filePath = (w1, None, None)
      \<and> files w1 filePath = Some content
      \<and> (\<forall>p. p \<noteq> filePath \<longrightarrow> files w1 p = files w p)
      \<and> dirs w1 = dirs w \<and> sent w1 = sent w \<and> calls w1 = calls w)
   \<and> (filePath \<noteq> [] \<and> osWriteFile E w filePath content = (w1, Some err) \<longrightarrow>
      Save E w c content filePath = (w1, None, Some err))
   \<and> Save E w c content [] = (w, Some content, None)"
  by (auto simp: Save_def osWriteFile_def osOpenFile_def fileWrite_def
           split: option.splits prod.splits if_splits)

text \<open>Saving four bytes to \<^verbatim>\<open>out.pdf\<close> on an empty disk.\<close>

theorem Save_contract_witness:
  "''out.pdf'' \<noteq> []
   \<and> osWriteFile (plainEnv (answering 200 ''ok'')) emptyWorld ''out.pdf'' ''%PDF''
       = (emptyWorld\<lparr>files := [''out.pdf'' \<mapsto> ''%PDF'']\<rparr>, None)
   \<and> Save (plainEnv (answering 200 ''ok'')) emptyWorld (NewPDFClient ''key'' []) ''%PDF'' ''out.pdf''
       = (emptyWorld\<lparr>files := [''out.pdf'' \<mapsto> ''%PDF'']\<rparr>, None, None)
   \<and> files (emptyWorld\<lparr>files := [''out.pdf'' \<mapsto> ''%PDF'']\<rparr>) ''out.pdf'' = Some ''%PDF''"
proof -
  have o: "osWriteFile (plainEnv (answering 200 ''ok'')) emptyWorld ''out.pdf'' ''%PDF''
       = (emptyWorld\<lparr>files := [''out.pdf'' \<mapsto> ''%PDF'']\<rparr>, None)"
    by (simp add: osWriteFile_def osOpenFile_def fileWrite_def plainEnv_def emptyWorld_def)
  from Save_contract [THEN conjunct1, rule_format, of "''out.pdf''"
      "plainEnv (answering 200 ''ok'')" emptyWorld "''%PDF''"
      "emptyWorld\<lparr>files := [''out.pdf'' \<mapsto> ''%PDF'']\<rparr>" "NewPDFClient ''key'' []"] o
  show ?thesis by simp
qed

section \<open>Extract\<close>

text \<open>
  The failures that Extract checks end the extraction with their error: a zip that cannot
  be read, and for a file entry the failure to open the target, to open the entry, or to
  copy it. The entries after the failing one are not visited, and the world is the one
  that the entries before it and the failing step left: nothing is rolled back.
\<close>

lemma Extract_bad_zip:
  "zipNewReader E zipBytes = Inl err \<Longrightarrow> Extract E w c zipBytes outputPath = (w, Some err)"
  by (simp add: Extract_def)

lemma extractEntries_append:
  "extractEntries E w outputPath (xs @ ys) =
     (case extractEntries E w outputPath xs of
        (w1, Some err) \<Rightarrow> (w1, Some err)
      | (w1, None) \<Rightarrow> extractEntries E w1 outputPath ys)"
  by (induction xs arbitrary: w)
     (auto simp: Let_def split: prod.splits option.splits sum.splits)

lemma extractEntries_first_failure:
  assumes "extractEntries E w outputPath pre = (w1, None)"
    and "extractEntries E w1 outputPath [f] = (w2, Some err)"
  shows "extractEntries E w outputPath (pre @ f # post) = (w2, Some err)"
proof -
  have "extractEntries E w1 outputPath ([f] @ post) = (w2, Some err)"
    using assms(2) by (simp only: extractEntries_append) simp
  then show ?thesis
    using assms(1) by (simp add: extractEntries_append)
qed

text \<open>
  C6. A failure to create the directory of a directory entry is not among them. An
  archive with the one entry \<^verbatim>\<open>docs/\<close>, extracted to \<^verbatim>\<open>out\<close> where the directory
  cannot be created: \<^verbatim>\<open>os.MkdirAll\<close> fails, and Extract returns no error.
\<close>

theorem Extract_ignores_mkdir_failure:
  "osMkdirAll
     ((plainEnv (answering 200 ''ok''))\<lparr>mkdirFault := (\<lambda>_. Some (LibErr ''mkdir out/docs: not a directory''))\<rparr>)
     emptyWorld ''out/docs/''
     = (emptyWorld, Some (LibErr ''mkdir out/docs: not a directory''))
   \<and> Extract
     ((plainEnv (answering 200 ''ok''))
        \<lparr>mkdirFault := (\<lambda>_. Some (LibErr ''mkdir out/docs: not a directory'')),
         zipNewReader := (\<lambda>_. Inr [\<lparr> Name = ''docs/'', IsDir = True, Mode = 493,
                                       Open = Inr (Reader [] None) \<rparr>])\<rparr>)
     emptyWorld (NewPDFClient ''key'' []) ''PK'' ''out''
     = (emptyWorld, None)"
  by (simp add: Extract_def osMkdirAll_def plainEnv_def)

section \<open>The error decoder\<close>

text \<open>
  C4. For every HTTP response, whatever its status, the error decoder returns an error
  value (it has no failing branch): the value carries the response's status code, the
  fixed message, and as raw body the whole body when it can be read to its end, and the
  sentinel text when reading the body fails; the read error itself is dropped.
\<close>

theorem NewPDFError_total:
  "StatusCode (NewPDFError resp) = RespStatusCode resp
   \<and> Message (NewPDFError resp) = ''Server returned an HTTP error''
   \<and> Response (NewPDFError resp) =
       (case Body resp of
          Reader d None \<Rightarrow> d
        | Reader d (Some e) \<Rightarrow> ''failed to read response body'')"
  by (cases "Body resp") (auto simp: NewPDFError_def split: option.splits)

text \<open>
  C5. The decoder never fills the \<open>Status\<close> field of the error: a response
  \<^verbatim>\<open>404 Not Found\<close> with body \<^verbatim>\<open>gone\<close> gives an error whose status text is empty.
\<close>

theorem NewPDFError_drops_status_text:
  "Status (NewPDFError \<lparr> RespStatusCode = 404, RespStatus = ''404 Not Found'', RespHeader = [],
                          Body = Reader ''gone'' None \<rparr>) = []
   \<and> Status (NewPDFError \<lparr> RespStatusCode = 404, RespStatus = ''404 Not Found'', RespHeader = [],
                          Body = Reader ''gone'' None \<rparr>) \<noteq> ''404 Not Found''"
  by (simp add: NewPDFError_def)

end
